theory Spec2Isabelle
  imports Complex_Main "HOL-Library.Multiset"
begin

section \<open>Earth Engine values used by the two trapezoid scripts\<close>

text \<open>
  The scripts \<^verbatim>\<open>soil_moisture_OPTRAM.js\<close> and \<^verbatim>\<open>soil_moisture_TOTRAM.js\<close> are chains of
  Earth Engine calls. A band is its pixel values over the grid: a pixel of type \<open>'p\<close> is
  either masked (\<open>None\<close>) or carries a number. Numbers are idealised as reals.
  The area of interest and the two irrigation regions are the finite lists of the pixels
  they cover at the scale of the reduction.
\<close>

type_synonym 'p band = "'p \<Rightarrow> real option"

datatype property_value = Str string | Num real

type_synonym properties = "string \<rightharpoonup> property_value"

text \<open>
  An image of the processed collections always carries an \<open>NDVI\<close> band and its properties;
  the Sentinel-2 images of \<^verbatim>\<open>coll\<close> add the band \<open>STR\<close> (field \<open>STR_band\<close>), the Landsat-8 images of
  \<^verbatim>\<open>parameters\<close> add the band \<open>LST\<close>. Any further band of the image is never selected by
  the code below.
\<close>

record 'p scene =
  NDVI :: "'p band"
  props :: properties

record 'p s2_scene = "'p scene" +
  STR_band :: "'p band"

record 'p l8_scene = "'p scene" +
  LST :: "'p band"

text \<open>
  A Landsat-8 image as the collection \<^verbatim>\<open>landsat\<close> delivers it: the digital numbers
  (integers) of the red and near-infrared surface-reflectance bands and of the thermal
  band, and its properties. The other \<^verbatim>\<open>SR_B\<close> bands are scaled but never read.
\<close>

record 'p landsat_image =
  SR_B4 :: "'p \<Rightarrow> int option"
  SR_B5 :: "'p \<Rightarrow> int option"
  ST_B10 :: "'p \<Rightarrow> int option"
  image_properties :: properties

text \<open>An output image: its named bands, in order, and its properties.\<close>

record 'p image =
  bands :: "(string \<times> 'p band) list"
  properties :: properties

text \<open>
  Failures. The scripts raise nothing themselves; \<open>EvaluationError\<close> stands for the error
  Earth Engine reports when a requested value cannot be computed (an index into an empty
  list, a missing operand). \<open>InsufficientDataError\<close> is the name the design document gives
  to a failed corner estimate; no definition below produces it.
\<close>

datatype error = EvaluationError | InsufficientDataError

subsection \<open>Pixel arithmetic and comparisons\<close>

text \<open>\<^verbatim>\<open>/\<close> of an expression and \<^verbatim>\<open>ee.Image.divide\<close>: the documentation gives 0 for a division by 0.\<close>

definition ee_divide :: "real \<Rightarrow> real \<Rightarrow> real" where
  "ee_divide a b = (if b = 0 then 0 else a / b)"

text \<open>\<^verbatim>\<open>multiply(k).add(c)\<close> on a band of digital numbers.\<close>

definition multiply_add :: "real \<Rightarrow> real \<Rightarrow> ('p \<Rightarrow> int option) \<Rightarrow> 'p band" where
  "multiply_add k c dn = (\<lambda>p. map_option (\<lambda>d. real_of_int d * k + c) (dn p))"

text \<open>\<^verbatim>\<open>normalizedDifference\<close>: \<open>(first - second) / (first + second)\<close>; a negative value in
  either band masks the pixel.\<close>

definition normalizedDifference :: "'p band \<Rightarrow> 'p band \<Rightarrow> 'p band" where
  "normalizedDifference a b =
     (\<lambda>p. case a p of None \<Rightarrow> None
          | Some x \<Rightarrow> (case b p of None \<Rightarrow> None
                       | Some y \<Rightarrow> if x < 0 \<or> y < 0 then None
                                   else Some (ee_divide (x - y) (x + y))))"

text \<open>A two-operand pixel operation: the result is masked where either operand is.\<close>

definition band2 :: "(real \<Rightarrow> real \<Rightarrow> real) \<Rightarrow> 'p band \<Rightarrow> 'p band \<Rightarrow> 'p band" where
  "band2 f a b = (\<lambda>p. case a p of None \<Rightarrow> None
                      | Some x \<Rightarrow> (case b p of None \<Rightarrow> None | Some y \<Rightarrow> Some (f x y)))"

definition gte :: "'p band \<Rightarrow> real \<Rightarrow> 'p band" where
  "gte b c = (\<lambda>p. map_option (\<lambda>v. if c \<le> v then 1 else 0) (b p))"

definition lte :: "'p band \<Rightarrow> real \<Rightarrow> 'p band" where
  "lte b c = (\<lambda>p. map_option (\<lambda>v. if v \<le> c then 1 else 0) (b p))"

definition gt :: "'p band \<Rightarrow> real \<Rightarrow> 'p band" where
  "gt b c = (\<lambda>p. map_option (\<lambda>v. if c < v then 1 else 0) (b p))"

definition lt :: "'p band \<Rightarrow> real \<Rightarrow> 'p band" where
  "lt b c = (\<lambda>p. map_option (\<lambda>v. if v < c then 1 else 0) (b p))"

definition and_ee :: "'p band \<Rightarrow> 'p band \<Rightarrow> 'p band" where
  "and_ee = band2 (\<lambda>x y. if x \<noteq> 0 \<and> y \<noteq> 0 then 1 else 0)"

text \<open>\<^verbatim>\<open>updateMask\<close>: a pixel stays valid where it was valid and the mask is valid and non-zero.\<close>

definition updateMask :: "'p band \<Rightarrow> 'p band \<Rightarrow> 'p band" where
  "updateMask b m = (\<lambda>p. case b p of None \<Rightarrow> None
                        | Some v \<Rightarrow> (case m p of None \<Rightarrow> None
                                     | Some x \<Rightarrow> if x \<noteq> 0 then Some v else None))"

subsection \<open>Reducers\<close>

text \<open>Maximum and minimum of two optional values; a masked value is ignored.\<close>

fun opt_max :: "real option \<Rightarrow> real option \<Rightarrow> real option" where
  "opt_max None y = y"
| "opt_max (Some x) None = Some x"
| "opt_max (Some x) (Some y) = Some (max x y)"

fun opt_min :: "real option \<Rightarrow> real option \<Rightarrow> real option" where
  "opt_min None y = y"
| "opt_min (Some x) None = Some x"
| "opt_min (Some x) (Some y) = Some (min x y)"

text \<open>\<^verbatim>\<open>ImageCollection.max()\<close>, \<^verbatim>\<open>.min()\<close>: per pixel, the extreme over the images valid there.\<close>

definition collection_max :: "'p band list \<Rightarrow> 'p band" where
  "collection_max bs = (\<lambda>p. foldr (\<lambda>b. opt_max (b p)) bs None)"

definition collection_min :: "'p band list \<Rightarrow> 'p band" where
  "collection_min bs = (\<lambda>p. foldr (\<lambda>b. opt_min (b p)) bs None)"

text \<open>\<^verbatim>\<open>reduceRegion\<close> with \<^verbatim>\<open>ee.Reducer.max()\<close>, \<^verbatim>\<open>min()\<close>: the extreme over the valid pixels
  of the geometry; no value when there is none.\<close>

definition reduceRegion_max :: "'p list \<Rightarrow> 'p band \<Rightarrow> real option" where
  "reduceRegion_max geometry b = foldr (\<lambda>p. opt_max (b p)) geometry None"

definition reduceRegion_min :: "'p list \<Rightarrow> 'p band \<Rightarrow> real option" where
  "reduceRegion_min geometry b = foldr (\<lambda>p. opt_min (b p)) geometry None"

text \<open>\<^verbatim>\<open>ee.Number(....values().get(0))\<close> as an operand: without a value its use is an error.\<close>

definition ee_Number :: "real option \<Rightarrow> error + real" where
  "ee_Number v = (case v of None \<Rightarrow> Inl EvaluationError | Some x \<Rightarrow> Inr x)"

definition subtract :: "error + real \<Rightarrow> error + real \<Rightarrow> error + real" where
  "subtract a b = (case a of Inl e \<Rightarrow> Inl e
                   | Inr x \<Rightarrow> (case b of Inl e \<Rightarrow> Inl e | Inr y \<Rightarrow> Inr (x - y)))"

subsection \<open>Images, properties and the regional chart\<close>

text \<open>\<^verbatim>\<open>rename\<close> of a one-band result; the properties of a computed band do not matter
  below, since every property of the source image is copied over it.\<close>

definition rename :: "string \<Rightarrow> 'p band \<Rightarrow> 'p image" where
  "rename name b = \<lparr>bands = [(name, b)], properties = Map.empty\<rparr>"

definition propertyNames :: "properties \<Rightarrow> string set" where
  "propertyNames m = dom m"

definition copyProperties :: "'p image \<Rightarrow> properties \<Rightarrow> string set \<Rightarrow> 'p image" where
  "copyProperties dest source names = dest\<lparr>properties := properties dest ++ (source |` names)\<rparr>"

text \<open>\<^verbatim>\<open>set\<close> with a dictionary: the listed properties are written one after the other.\<close>

fun set_all :: "properties \<Rightarrow> (string \<times> property_value) list \<Rightarrow> properties" where
  "set_all m [] = m"
| "set_all m ((k, v) # kvs) = set_all (m(k \<mapsto> v)) kvs"

definition set_properties :: "'p image \<Rightarrow> (string \<times> property_value) list \<Rightarrow> 'p image" where
  "set_properties img kvs = img\<lparr>properties := set_all (properties img) kvs\<rparr>"

definition select :: "string \<Rightarrow> 'p image \<Rightarrow> error + 'p band" where
  "select name img = (case map_of (bands img) name of None \<Rightarrow> Inl EvaluationError | Some b \<Rightarrow> Inr b)"

text \<open>An expression over the bands \<open>NDVI\<close> and a source band, with four computed scalars:
  it needs every scalar, and a pixel of the result is valid where both bands are.\<close>

definition expression ::
  "(real \<Rightarrow> real \<Rightarrow> real \<Rightarrow> real \<Rightarrow> real \<Rightarrow> real \<Rightarrow> real) \<Rightarrow> 'p band \<Rightarrow> 'p band \<Rightarrow>
   error + real \<Rightarrow> error + real \<Rightarrow> error + real \<Rightarrow> error + real \<Rightarrow> error + 'p band" where
  "expression f ndvi src i_d s_d i_w s_w =
     (case i_d of Inl e \<Rightarrow> Inl e | Inr a \<Rightarrow>
      (case s_d of Inl e \<Rightarrow> Inl e | Inr b \<Rightarrow>
       (case i_w of Inl e \<Rightarrow> Inl e | Inr c \<Rightarrow>
        (case s_w of Inl e \<Rightarrow> Inl e | Inr d \<Rightarrow>
           Inr (band2 (f a b c d) ndvi src)))))"

text \<open>\<^verbatim>\<open>ee.Reducer.mean()\<close> over a region (every pixel of the list with weight one), and
  \<^verbatim>\<open>ui.Chart.image.series\<close>: one point per image, the \<^verbatim>\<open>system:time_start\<close> property and
  the regional mean of the band \<^verbatim>\<open>soil_moisture\<close>.\<close>

definition reduceRegion_mean :: "'p list \<Rightarrow> 'p band \<Rightarrow> real option" where
  "reduceRegion_mean geometry b =
     (let vs = List.map_filter b geometry
      in if vs = [] then None else Some (sum_list vs / real (length vs)))"

definition chart_point ::
  "'p list \<Rightarrow> error + 'p image \<Rightarrow> error + (property_value option \<times> real option)" where
  "chart_point region r =
     (case r of Inl e \<Rightarrow> Inl e
      | Inr img \<Rightarrow> (case select ''soil_moisture'' img of Inl e \<Rightarrow> Inl e
                    | Inr b \<Rightarrow> Inr (properties img ''system:time_start'', reduceRegion_mean region b)))"

definition chart_series ::
  "(error + 'p image) list \<Rightarrow> 'p list \<Rightarrow> (error + (property_value option \<times> real option)) list" where
  "chart_series series region = map (chart_point region) series"

text \<open>Reading one pixel or one property of a result.\<close>

definition value_at :: "error + 'p image \<Rightarrow> string \<Rightarrow> 'p \<Rightarrow> error + real option" where
  "value_at r name p =
     (case r of Inl e \<Rightarrow> Inl e
      | Inr img \<Rightarrow> (case select name img of Inl e \<Rightarrow> Inl e | Inr b \<Rightarrow> Inr (b p)))"

definition property_at :: "error + 'p image \<Rightarrow> string \<Rightarrow> error + property_value option" where
  "property_at r key = (case r of Inl e \<Rightarrow> Inl e | Inr img \<Rightarrow> Inr (properties img key))"

definition band_names :: "error + 'p image \<Rightarrow> error + string list" where
  "band_names r = (case r of Inl e \<Rightarrow> Inl e | Inr img \<Rightarrow> Inr (map fst (bands img)))"

section \<open>OPTRAM (Sentinel-2)\<close>

text \<open>The STR expression of \<^verbatim>\<open>S2_proc\<close>: \<^verbatim>\<open>((1 - SWIR) ** 2) / (2 * SWIR)\<close>.\<close>

definition STR_expression :: "real \<Rightarrow> real" where
  "STR_expression SWIR = ee_divide ((1 - SWIR) ^ 2) (2 * SWIR)"

text \<open>The two vegetation-class masks of one image, and the masked STR collections.\<close>

definition full :: "('p, 'z) scene_scheme \<Rightarrow> 'p band" where
  "full img = gte (NDVI img) (6 / 10)"

definition bare :: "('p, 'z) scene_scheme \<Rightarrow> 'p band" where
  "bare img = and_ee (gte (NDVI img) (1 / 10)) (lte (NDVI img) (2 / 10))"

definition STR_full_cover :: "'p s2_scene list \<Rightarrow> 'p band list" where
  "STR_full_cover coll = map (\<lambda>img. updateMask (STR_band img) (full img)) coll"

definition STR_bare_soil :: "'p s2_scene list \<Rightarrow> 'p band list" where
  "STR_bare_soil coll = map (\<lambda>img. updateMask (STR_band img) (bare img)) coll"

text \<open>The trapezoid corners, from collection-wide statistics, and the two deltas.\<close>

definition vw_opt :: "'p list \<Rightarrow> 'p s2_scene list \<Rightarrow> error + real" where
  "vw_opt AOI coll = ee_Number (reduceRegion_max AOI (collection_max (STR_full_cover coll)))"

definition vd_opt :: "'p list \<Rightarrow> 'p s2_scene list \<Rightarrow> error + real" where
  "vd_opt AOI coll = ee_Number (reduceRegion_min AOI (collection_min (STR_full_cover coll)))"

definition iw_opt :: "'p list \<Rightarrow> 'p s2_scene list \<Rightarrow> error + real" where
  "iw_opt AOI coll = ee_Number (reduceRegion_max AOI (collection_max (STR_bare_soil coll)))"

definition id_opt :: "'p list \<Rightarrow> 'p s2_scene list \<Rightarrow> error + real" where
  "id_opt AOI coll = ee_Number (reduceRegion_min AOI (collection_min (STR_bare_soil coll)))"

definition sd_opt :: "'p list \<Rightarrow> 'p s2_scene list \<Rightarrow> error + real" where
  "sd_opt AOI coll = subtract (vd_opt AOI coll) (id_opt AOI coll)"

definition sw_opt :: "'p list \<Rightarrow> 'p s2_scene list \<Rightarrow> error + real" where
  "sw_opt AOI coll = subtract (vw_opt AOI coll) (iw_opt AOI coll)"

text \<open>The soil-moisture expression:
  \<^verbatim>\<open>((id + (sd * NDVI) - STR) / ((id - iw) + ((sd - sw) * NDVI))) * 100\<close>.\<close>

definition optram_expression :: "real \<Rightarrow> real \<Rightarrow> real \<Rightarrow> real \<Rightarrow> real \<Rightarrow> real \<Rightarrow> real" where
  "optram_expression i_d s_d i_w s_w ndvi str =
     ee_divide (i_d + (s_d * ndvi) - str) ((i_d - i_w) + ((s_d - s_w) * ndvi)) * 100"

text \<open>\<^verbatim>\<open>OPTRAM_median\<close>. The temporal median composite \<^verbatim>\<open>imgMedian\<close> of the collection is
  computed by the platform's median reducer and is taken as given.\<close>

definition OPTRAM_median :: "'p list \<Rightarrow> 'p s2_scene list \<Rightarrow> 'p s2_scene \<Rightarrow> error + 'p image" where
  "OPTRAM_median AOI coll imgMedian =
     (case expression optram_expression (NDVI imgMedian) (STR_band imgMedian)
             (id_opt AOI coll) (sd_opt AOI coll) (iw_opt AOI coll) (sw_opt AOI coll) of
        Inl e \<Rightarrow> Inl e
      | Inr eq \<Rightarrow> Inr (set_properties (rename ''soil_moisture'' eq)
          [(''model'', Str ''OPTRAM''),
           (''model_ref'', Str ''Sadeghi et al. (adapted).''),
           (''units'', Str ''%''),
           (''notes'', Str ''Relative surface soil moisture estimated by OPTRAM from Sentinel-2 STR & NDVI'')]))"

text \<open>The function mapped over \<^verbatim>\<open>coll\<close> for the time series, and the series.\<close>

definition optram_image :: "'p list \<Rightarrow> 'p s2_scene list \<Rightarrow> 'p s2_scene \<Rightarrow> error + 'p image" where
  "optram_image AOI coll img =
     (case expression optram_expression (NDVI img) (STR_band img)
             (id_opt AOI coll) (sd_opt AOI coll) (iw_opt AOI coll) (sw_opt AOI coll) of
        Inl e \<Rightarrow> Inl e
      | Inr eq \<Rightarrow> Inr (set_properties
          (copyProperties (rename ''soil_moisture'' eq) (props img) (propertyNames (props img)))
          [(''model'', Str ''OPTRAM''), (''units'', Str ''%'')]))"

definition optram_series :: "'p list \<Rightarrow> 'p s2_scene list \<Rightarrow> (error + 'p image) list" where
  "optram_series AOI coll = map (optram_image AOI coll) coll"

section \<open>TOTRAM (Landsat 8)\<close>

text \<open>The function mapped over \<^verbatim>\<open>landsat\<close> to build \<^verbatim>\<open>parameters\<close>: the optical bands
  scaled by 0.0000275 and offset by -0.2, NDVI from near-infrared and red, the thermal
  band scaled by 0.00341802 and offset by 149, and every property of the image copied.\<close>

definition parameters_image :: "'p landsat_image \<Rightarrow> 'p l8_scene" where
  "parameters_image img =
     \<lparr>NDVI = normalizedDifference
               (multiply_add (275 / 10000000) (- (2 / 10)) (SR_B5 img))
               (multiply_add (275 / 10000000) (- (2 / 10)) (SR_B4 img)),
      props = image_properties img,
      LST = multiply_add (341802 / 100000000) 149 (ST_B10 img)\<rparr>"

definition ndvi_full :: "('p, 'z) scene_scheme \<Rightarrow> 'p band" where
  "ndvi_full img = gt (NDVI img) (3 / 10)"

definition ndvi_bare :: "('p, 'z) scene_scheme \<Rightarrow> 'p band" where
  "ndvi_bare img = and_ee (gte (NDVI img) 0) (lt (NDVI img) (2 / 10))"

text \<open>Only the masked band of these two collections is read afterwards.\<close>

definition lst_full_cover :: "'p l8_scene list \<Rightarrow> 'p band list" where
  "lst_full_cover parameters = map (\<lambda>img. updateMask (LST img) (ndvi_full img)) parameters"

definition lst_bareland :: "'p l8_scene list \<Rightarrow> 'p band list" where
  "lst_bareland parameters = map (\<lambda>img. updateMask (LST img) (ndvi_bare img)) parameters"

text \<open>The corners \<^verbatim>\<open>vw\<close>, \<^verbatim>\<open>vd\<close>, \<^verbatim>\<open>iw\<close>, \<^verbatim>\<open>id\<close> (here \<open>id_tot\<close>) and the deltas.\<close>

definition vw :: "'p list \<Rightarrow> 'p l8_scene list \<Rightarrow> error + real" where
  "vw AOI parameters = ee_Number (reduceRegion_min AOI (collection_min (lst_full_cover parameters)))"

definition vd :: "'p list \<Rightarrow> 'p l8_scene list \<Rightarrow> error + real" where
  "vd AOI parameters = ee_Number (reduceRegion_max AOI (collection_max (lst_full_cover parameters)))"

definition iw :: "'p list \<Rightarrow> 'p l8_scene list \<Rightarrow> error + real" where
  "iw AOI parameters = ee_Number (reduceRegion_min AOI (collection_min (lst_bareland parameters)))"

definition id_tot :: "'p list \<Rightarrow> 'p l8_scene list \<Rightarrow> error + real" where
  "id_tot AOI parameters = ee_Number (reduceRegion_max AOI (collection_max (lst_bareland parameters)))"

definition sd :: "'p list \<Rightarrow> 'p l8_scene list \<Rightarrow> error + real" where
  "sd AOI parameters = subtract (id_tot AOI parameters) (vd AOI parameters)"

definition sw :: "'p list \<Rightarrow> 'p l8_scene list \<Rightarrow> error + real" where
  "sw AOI parameters = subtract (iw AOI parameters) (vw AOI parameters)"

text \<open>The expression \<^verbatim>\<open>(id + sd * NDVI - LST) / (id - iw + (sd - sw) * NDVI)\<close>, the
  function mapped over \<^verbatim>\<open>parameters\<close>, and the series.\<close>

definition totram_expression :: "real \<Rightarrow> real \<Rightarrow> real \<Rightarrow> real \<Rightarrow> real \<Rightarrow> real \<Rightarrow> real" where
  "totram_expression i_d s_d i_w s_w ndvi lst =
     ee_divide (i_d + s_d * ndvi - lst) (i_d - i_w + (s_d - s_w) * ndvi)"

definition sm_image :: "'p list \<Rightarrow> 'p l8_scene list \<Rightarrow> 'p l8_scene \<Rightarrow> error + 'p image" where
  "sm_image AOI parameters img =
     (case expression totram_expression (NDVI img) (LST img)
             (id_tot AOI parameters) (sd AOI parameters) (iw AOI parameters) (sw AOI parameters) of
        Inl e \<Rightarrow> Inl e
      | Inr eq \<Rightarrow> Inr (set_properties
          (copyProperties (rename ''soil_moisture'' eq) (props img) (propertyNames (props img)))
          [(''model'', Str ''TOTRAM''), (''units'', Str ''relative'')]))"

definition sm_series :: "'p list \<Rightarrow> 'p l8_scene list \<Rightarrow> (error + 'p image) list" where
  "sm_series AOI parameters = map (sm_image AOI parameters) parameters"

text \<open>\<^verbatim>\<open>sm_mean\<close>: the per-pixel mean across the series (over the images valid at the pixel),
  renamed and tagged. Every image of the series has the single band \<^verbatim>\<open>soil_moisture\<close>;
  the reduction of an empty collection has no band to rename.\<close>

fun series_bands :: "(error + 'p image) list \<Rightarrow> error + 'p band list" where
  "series_bands [] = Inr []"
| "series_bands (r # rs) =
     (case r of Inl e \<Rightarrow> Inl e
      | Inr img \<Rightarrow> (case select ''soil_moisture'' img of Inl e \<Rightarrow> Inl e
                    | Inr b \<Rightarrow> (case series_bands rs of Inl e \<Rightarrow> Inl e | Inr bs \<Rightarrow> Inr (b # bs))))"

definition collection_mean :: "'p band list \<Rightarrow> 'p band" where
  "collection_mean bs =
     (\<lambda>p. let vs = List.map_filter (\<lambda>b. b p) bs
          in if vs = [] then None else Some (sum_list vs / real (length vs)))"

definition sm_mean :: "'p list \<Rightarrow> 'p l8_scene list \<Rightarrow> error + 'p image" where
  "sm_mean AOI parameters =
     (case series_bands (sm_series AOI parameters) of
        Inl e \<Rightarrow> Inl e
      | Inr bs \<Rightarrow> if bs = [] then Inl EvaluationError
                  else Inr (set_properties (rename ''sm_mean'' (collection_mean bs))
                         [(''model'', Str ''TOTRAM''), (''units'', Str ''relative''),
                          (''notes'', Str ''Thermal-optical relative soil moisture (TOTRAM)'')]))"

section \<open>The pooled extreme of the design document\<close>

text \<open>Pool every valid masked pixel value across the images and the pixels of the
  geometry, then take the single global extreme.\<close>

definition pooled_values :: "'p list \<Rightarrow> 'p band list \<Rightarrow> real list" where
  "pooled_values geometry bs = concat (map (\<lambda>b. List.map_filter b geometry) bs)"

definition global_max :: "real list \<Rightarrow> real option" where
  "global_max vs = (if vs = [] then None else Some (Max (set vs)))"

definition global_min :: "real list \<Rightarrow> real option" where
  "global_min vs = (if vs = [] then None else Some (Min (set vs)))"

section \<open>Two small collections\<close>

text \<open>Three one-pixel Sentinel-2 images (NDVI 0.65, 0.15, 0.62 and STR 1.2, 2.0, 1.1), a
  fourth with an NDVI close to zero, and four one-pixel Landsat-8 images given by their
  digital numbers (near-infrared, red, thermal).\<close>

definition s2_pixel :: "real \<Rightarrow> real \<Rightarrow> real \<Rightarrow> nat s2_scene" where
  "s2_pixel t n s = \<lparr>NDVI = (\<lambda>p. if p = 0 then Some n else None),
                     props = [''system:time_start'' \<mapsto> Num t],
                     STR_band = (\<lambda>p. if p = 0 then Some s else None)\<rparr>"

definition l8_pixel :: "real \<Rightarrow> int \<Rightarrow> int \<Rightarrow> int \<Rightarrow> nat l8_scene" where
  "l8_pixel t b5 b4 b10 = parameters_image
     \<lparr>SR_B4 = (\<lambda>p. if p = 0 then Some b4 else None),
      SR_B5 = (\<lambda>p. if p = 0 then Some b5 else None),
      ST_B10 = (\<lambda>p. if p = 0 then Some b10 else None),
      image_properties = [''system:time_start'' \<mapsto> Num t]\<rparr>"

definition three_scenes :: "nat s2_scene list" where
  "three_scenes = [s2_pixel 1 (65 / 100) (12 / 10), s2_pixel 2 (15 / 100) 2, s2_pixel 3 (62 / 100) (11 / 10)]"

definition four_scenes :: "nat s2_scene list" where
  "four_scenes = three_scenes @ [s2_pixel 4 (1 / 1000000) 1]"

definition landsat_scenes :: "nat l8_scene list" where
  "landsat_scenes = [l8_pixel 1 20000 10000 44000, l8_pixel 2 11000 10000 50000,
                     l8_pixel 3 18000 10000 43000, l8_pixel 4 10500 10000 47000]"

section \<open>The index engine: the transmittance ratio\<close>

lemma STR_expression_eq:
  "SWIR \<noteq> 0 \<Longrightarrow> STR_expression SWIR = (1 - SWIR)\<^sup>2 / (2 * SWIR)"
  by (simp add: STR_expression_def ee_divide_def)

lemma STR_expression_less:
  assumes "0 < a" "a < b" "b < 1"
  shows "STR_expression b < STR_expression a"
proof -
  have ab: "a * b < 1"
  proof -
    have "a * b < 1 * 1" using assms by (intro mult_strict_mono) auto
    then show ?thesis by simp
  qed
  have pos: "0 < (b - a) * (1 - a * b)" using assms ab by simp
  have eq: "b * (1 - a)\<^sup>2 - a * (1 - b)\<^sup>2 = (b - a) * (1 - a * b)"
    by (simp add: power2_eq_square algebra_simps)
  have "a * (1 - b)\<^sup>2 < b * (1 - a)\<^sup>2" using pos eq by linarith
  then have "(1 - b)\<^sup>2 / (2 * b) < (1 - a)\<^sup>2 / (2 * a)"
    using assms by (simp add: field_simps)
  then show ?thesis using assms by (simp add: STR_expression_eq)
qed

text \<open>
  Claim C6. On the open interval (0,1) the transmittance ratio is
  \<open>(1 - swir)\<^sup>2 / (2 swir)\<close> and strictly decreasing in \<open>swir\<close>: a larger \<open>swir\<close> gives a
  strictly smaller ratio; at \<open>swir = 0.5\<close> the ratio is exactly 0.25.
\<close>

theorem transmittance_ratio_decreasing:
  assumes "0 < a" "a < b" "b < 1"
  shows "STR_expression a = (1 - a)\<^sup>2 / (2 * a)
       \<and> STR_expression b = (1 - b)\<^sup>2 / (2 * b)
       \<and> STR_expression b < STR_expression a
       \<and> STR_expression (1 / 2) = 1 / 4"
proof -
  have "STR_expression (1 / 2) = 1 / 4"
    by (simp add: STR_expression_def ee_divide_def power2_eq_square)
  then show ?thesis
    using assms STR_expression_less [OF assms] by (simp add: STR_expression_eq)
qed

theorem transmittance_ratio_decreasing_witness:
  "(0::real) < 1 / 4 \<and> (1 / 4 :: real) < 3 / 4 \<and> (3 / 4 :: real) < 1
   \<and> STR_expression (3 / 4) < STR_expression (1 / 4)
   \<and> STR_expression (1 / 4) = 9 / 8 \<and> STR_expression (3 / 4) = 1 / 24"
  using transmittance_ratio_decreasing [of "1 / 4" "3 / 4"]
  by (simp add: power2_eq_square)

section \<open>The corner estimator against the pooled extreme\<close>

lemma opt_max_None_right [simp]: "opt_max x None = x"
  by (cases x) simp_all

lemma opt_min_None_right [simp]: "opt_min x None = x"
  by (cases x) simp_all

lemma opt_max_assoc: "opt_max (opt_max x y) z = opt_max x (opt_max y z)"
  by (cases x; cases y; cases z) (simp_all add: max.assoc)

lemma opt_min_assoc: "opt_min (opt_min x y) z = opt_min x (opt_min y z)"
  by (cases x; cases y; cases z) (simp_all add: min.assoc)

lemma opt_max_left_commute: "opt_max x (opt_max y z) = opt_max y (opt_max x z)"
  by (cases x; cases y; cases z) (simp_all add: max.left_commute)

lemma opt_min_left_commute: "opt_min x (opt_min y z) = opt_min y (opt_min x z)"
  by (cases x; cases y; cases z) (simp_all add: min.left_commute)

lemma global_max_Cons: "global_max (v # vs) = opt_max (Some v) (global_max vs)"
  by (simp add: global_max_def)

lemma global_min_Cons: "global_min (v # vs) = opt_min (Some v) (global_min vs)"
  by (simp add: global_min_def)

lemma global_max_append: "global_max (xs @ ys) = opt_max (global_max xs) (global_max ys)"
proof (induction xs)
  case Nil
  show ?case by (simp add: global_max_def)
next
  case (Cons x xs)
  then show ?case by (simp add: global_max_Cons opt_max_assoc)
qed

lemma global_min_append: "global_min (xs @ ys) = opt_min (global_min xs) (global_min ys)"
proof (induction xs)
  case Nil
  show ?case by (simp add: global_min_def)
next
  case (Cons x xs)
  then show ?case by (simp add: global_min_Cons opt_min_assoc)
qed

text \<open>One reduction stage is the extreme of the valid values it runs over.\<close>

lemma foldr_opt_max: "foldr (\<lambda>x. opt_max (f x)) xs None = global_max (List.map_filter f xs)"
proof (induction xs)
  case Nil
  show ?case by (simp add: global_max_def)
next
  case (Cons x xs)
  then show ?case by (cases "f x") (simp_all add: global_max_Cons)
qed

lemma foldr_opt_min: "foldr (\<lambda>x. opt_min (f x)) xs None = global_min (List.map_filter f xs)"
proof (induction xs)
  case Nil
  show ?case by (simp add: global_min_def)
next
  case (Cons x xs)
  then show ?case by (cases "f x") (simp_all add: global_min_Cons)
qed

lemma foldr_opt_max_split:
  "foldr (\<lambda>p. opt_max (opt_max (f p) (g p))) ps None
   = opt_max (foldr (\<lambda>p. opt_max (f p)) ps None) (foldr (\<lambda>p. opt_max (g p)) ps None)"
  by (induction ps) (simp_all add: opt_max_assoc opt_max_left_commute)

lemma foldr_opt_min_split:
  "foldr (\<lambda>p. opt_min (opt_min (f p) (g p))) ps None
   = opt_min (foldr (\<lambda>p. opt_min (f p)) ps None) (foldr (\<lambda>p. opt_min (g p)) ps None)"
  by (induction ps) (simp_all add: opt_min_assoc opt_min_left_commute)

text \<open>The two stages, per-pixel over the images and then over the region.\<close>

lemma two_stage_max:
  "reduceRegion_max geometry (collection_max bs) = global_max (pooled_values geometry bs)"
proof (induction bs)
  case Nil
  show ?case
    by (induction geometry)
      (simp_all add: reduceRegion_max_def collection_max_def pooled_values_def global_max_def)
next
  case (Cons b bs)
  have "reduceRegion_max geometry (collection_max (b # bs))
        = foldr (\<lambda>p. opt_max (opt_max (b p) (collection_max bs p))) geometry None"
    by (simp add: reduceRegion_max_def collection_max_def)
  also have "\<dots> = opt_max (foldr (\<lambda>p. opt_max (b p)) geometry None)
                          (reduceRegion_max geometry (collection_max bs))"
    by (simp add: foldr_opt_max_split reduceRegion_max_def)
  also have "\<dots> = opt_max (global_max (List.map_filter b geometry))
                          (global_max (pooled_values geometry bs))"
    by (simp add: foldr_opt_max Cons)
  also have "\<dots> = global_max (pooled_values geometry (b # bs))"
    by (simp add: pooled_values_def global_max_append)
  finally show ?case .
qed

lemma two_stage_min:
  "reduceRegion_min geometry (collection_min bs) = global_min (pooled_values geometry bs)"
proof (induction bs)
  case Nil
  show ?case
    by (induction geometry)
      (simp_all add: reduceRegion_min_def collection_min_def pooled_values_def global_min_def)
next
  case (Cons b bs)
  have "reduceRegion_min geometry (collection_min (b # bs))
        = foldr (\<lambda>p. opt_min (opt_min (b p) (collection_min bs p))) geometry None"
    by (simp add: reduceRegion_min_def collection_min_def)
  also have "\<dots> = opt_min (foldr (\<lambda>p. opt_min (b p)) geometry None)
                          (reduceRegion_min geometry (collection_min bs))"
    by (simp add: foldr_opt_min_split reduceRegion_min_def)
  also have "\<dots> = opt_min (global_min (List.map_filter b geometry))
                          (global_min (pooled_values geometry bs))"
    by (simp add: foldr_opt_min Cons)
  also have "\<dots> = global_min (pooled_values geometry (b # bs))"
    by (simp add: pooled_values_def global_min_append)
  finally show ?case .
qed

lemmas corner_defs = vw_opt_def vd_opt_def iw_opt_def id_opt_def vw_def vd_def iw_def id_tot_def

lemma three_scenes_nonempty: "three_scenes \<noteq> []"
  by (simp add: three_scenes_def)

lemma landsat_scenes_nonempty: "landsat_scenes \<noteq> []"
  by (simp add: landsat_scenes_def)

text \<open>
  Claim C3. For every non-empty collection, each of the eight corners of the two scripts
  (the per-pixel extreme across the images by the collection's max or min, followed by the
  spatial extreme over the region) equals the single global extreme of the pooled list of
  all valid masked pixel values across all images and all pixels of the region; the same
  holds for any list of masked bands.
\<close>

theorem two_stage_reduction_is_pooled_extreme:
  assumes "coll \<noteq> []" and "parameters \<noteq> []" and "bs \<noteq> []"
  shows "reduceRegion_max AOI (collection_max bs) = global_max (pooled_values AOI bs)
       \<and> reduceRegion_min AOI (collection_min bs) = global_min (pooled_values AOI bs)
       \<and> vw_opt AOI coll = ee_Number (global_max (pooled_values AOI (STR_full_cover coll)))
       \<and> vd_opt AOI coll = ee_Number (global_min (pooled_values AOI (STR_full_cover coll)))
       \<and> iw_opt AOI coll = ee_Number (global_max (pooled_values AOI (STR_bare_soil coll)))
       \<and> id_opt AOI coll = ee_Number (global_min (pooled_values AOI (STR_bare_soil coll)))
       \<and> vw AOI parameters = ee_Number (global_min (pooled_values AOI (lst_full_cover parameters)))
       \<and> vd AOI parameters = ee_Number (global_max (pooled_values AOI (lst_full_cover parameters)))
       \<and> iw AOI parameters = ee_Number (global_min (pooled_values AOI (lst_bareland parameters)))
       \<and> id_tot AOI parameters = ee_Number (global_max (pooled_values AOI (lst_bareland parameters)))"
  by (simp add: corner_defs two_stage_max two_stage_min)

theorem two_stage_reduction_is_pooled_extreme_witness:
  "three_scenes \<noteq> [] \<and> landsat_scenes \<noteq> [] \<and> STR_full_cover three_scenes \<noteq> []
   \<and> vw_opt [0] three_scenes = ee_Number (global_max (pooled_values [0] (STR_full_cover three_scenes)))
   \<and> id_tot [0] landsat_scenes = ee_Number (global_max (pooled_values [0] (lst_bareland landsat_scenes)))"
  using two_stage_reduction_is_pooled_extreme
          [of three_scenes landsat_scenes "STR_full_cover three_scenes" "[0]"]
  by (simp add: three_scenes_nonempty landsat_scenes_nonempty STR_full_cover_def)

section \<open>The two example collections, evaluated\<close>

lemmas mask_defs = STR_full_cover_def STR_bare_soil_def lst_full_cover_def lst_bareland_def
  full_def bare_def ndvi_full_def ndvi_bare_def updateMask_def gte_def lte_def gt_def lt_def
  and_ee_def band2_def

lemmas reducer_defs = collection_max_def collection_min_def reduceRegion_max_def
  reduceRegion_min_def ee_Number_def subtract_def

lemmas example_defs = three_scenes_def four_scenes_def landsat_scenes_def s2_pixel_def l8_pixel_def
  parameters_image_def normalizedDifference_def multiply_add_def ee_divide_def

lemma three_vw: "vw_opt [0] three_scenes = Inr (12 / 10)"
  by (simp add: vw_opt_def mask_defs reducer_defs example_defs)

lemma three_vd: "vd_opt [0] three_scenes = Inr (11 / 10)"
  by (simp add: vd_opt_def mask_defs reducer_defs example_defs)

lemma three_iw: "iw_opt [0] three_scenes = Inr 2"
  by (simp add: iw_opt_def mask_defs reducer_defs example_defs)

lemma three_id: "id_opt [0] three_scenes = Inr 2"
  by (simp add: id_opt_def mask_defs reducer_defs example_defs)

lemma three_sd: "sd_opt [0] three_scenes = Inr (- (9 / 10))"
  by (simp add: sd_opt_def three_vd three_id subtract_def)

lemma three_sw: "sw_opt [0] three_scenes = Inr (- (8 / 10))"
  by (simp add: sw_opt_def three_vw three_iw subtract_def)

lemma four_vw: "vw_opt [0] four_scenes = Inr (12 / 10)"
  by (simp add: vw_opt_def mask_defs reducer_defs example_defs)

lemma four_vd: "vd_opt [0] four_scenes = Inr (11 / 10)"
  by (simp add: vd_opt_def mask_defs reducer_defs example_defs)

lemma four_iw: "iw_opt [0] four_scenes = Inr 2"
  by (simp add: iw_opt_def mask_defs reducer_defs example_defs)

lemma four_id: "id_opt [0] four_scenes = Inr 2"
  by (simp add: id_opt_def mask_defs reducer_defs example_defs)

lemma four_sd: "sd_opt [0] four_scenes = Inr (- (9 / 10))"
  by (simp add: sd_opt_def four_vd four_id subtract_def)

lemma four_sw: "sw_opt [0] four_scenes = Inr (- (8 / 10))"
  by (simp add: sw_opt_def four_vw four_iw subtract_def)

lemma landsat_vw: "vw [0] landsat_scenes = Inr (14798743 / 50000)"
  by (simp add: vw_def mask_defs reducer_defs example_defs)

lemma landsat_vd: "vd [0] landsat_scenes = Inr (3742411 / 12500)"
  by (simp add: vd_def mask_defs reducer_defs example_defs)

lemma landsat_iw: "iw [0] landsat_scenes = Inr (15482347 / 50000)"
  by (simp add: iw_def mask_defs reducer_defs example_defs)

lemma landsat_id: "id_tot [0] landsat_scenes = Inr (319901 / 1000)"
  by (simp add: id_tot_def mask_defs reducer_defs example_defs)

lemma landsat_sd: "sd [0] landsat_scenes = Inr (512703 / 25000)"
  by (simp add: sd_def landsat_vd landsat_id subtract_def)

lemma landsat_sw: "sw [0] landsat_scenes = Inr (170901 / 12500)"
  by (simp add: sw_def landsat_vw landsat_iw subtract_def)

section \<open>Trapezoid parameter derivation\<close>

lemma ee_Number_Inr: "ee_Number v = Inr x \<longleftrightarrow> v = Some x"
  by (cases v) (simp_all add: ee_Number_def)

lemma global_min_Some: "global_min vs = Some x \<longleftrightarrow> vs \<noteq> [] \<and> x = Min (set vs)"
  by (auto simp: global_min_def)

lemma global_max_Some: "global_max vs = Some x \<longleftrightarrow> vs \<noteq> [] \<and> x = Max (set vs)"
  by (auto simp: global_max_def)

lemma corner_min_Inr:
  "ee_Number (reduceRegion_min AOI (collection_min bs)) = Inr x
   \<Longrightarrow> x = Min (set (pooled_values AOI bs))"
  by (simp add: ee_Number_Inr two_stage_min global_min_Some)

lemma corner_max_Inr:
  "ee_Number (reduceRegion_max AOI (collection_max bs)) = Inr x
   \<Longrightarrow> x = Max (set (pooled_values AOI bs))"
  by (simp add: ee_Number_Inr two_stage_max global_max_Some)

text \<open>
  Claim C1, as the claim states it, fails for the ratio-band family: on the three-image
  collection the dry bare-soil corner is 2 and the dry vegetation corner is 1.1, and the
  script's \<^verbatim>\<open>sd_opt\<close> is \<open>1.1 - 2 = -0.9\<close>, not \<open>2 - 1.1\<close>; likewise \<^verbatim>\<open>sw_opt\<close> is
  \<open>1.2 - 2 = -0.8\<close>.
\<close>

theorem optram_deltas_counterexample:
  "id_opt [0] three_scenes = Inr 2 \<and> vd_opt [0] three_scenes = Inr (11 / 10)
   \<and> sd_opt [0] three_scenes = Inr (- (9 / 10))
   \<and> sd_opt [0] three_scenes \<noteq> Inr (2 - 11 / 10)
   \<and> iw_opt [0] three_scenes = Inr 2 \<and> vw_opt [0] three_scenes = Inr (12 / 10)
   \<and> sw_opt [0] three_scenes = Inr (- (8 / 10))
   \<and> sw_opt [0] three_scenes \<noteq> Inr (2 - 12 / 10)"
  by (simp add: three_id three_vd three_sd three_iw three_vw three_sw)

text \<open>
  Claim C1, amended. With the four corners of a family available, the ratio-band (OPTRAM)
  deltas are vegetation corner minus bare-soil corner, \<open>sd = dryVeg - dryBare\<close> and
  \<open>sw = wetVeg - wetBare\<close>, where dry is the minimum and wet the maximum of the masked STR
  values; the temperature (TOTRAM) deltas are bare-soil corner minus vegetation corner,
  \<open>sd = dryBare - dryVeg\<close> and \<open>sw = wetBare - wetVeg\<close>, where dry is the maximum and wet
  the minimum of the masked LST values.
\<close>

theorem trapezoid_deltas:
  assumes "vw_opt AOI coll = Inr wetVeg" "vd_opt AOI coll = Inr dryVeg"
    and "iw_opt AOI coll = Inr wetBare" "id_opt AOI coll = Inr dryBare"
    and "vw AOI parameters = Inr wetVeg'" "vd AOI parameters = Inr dryVeg'"
    and "iw AOI parameters = Inr wetBare'" "id_tot AOI parameters = Inr dryBare'"
  shows "sd_opt AOI coll = Inr (dryVeg - dryBare) \<and> sw_opt AOI coll = Inr (wetVeg - wetBare)
       \<and> dryVeg = Min (set (pooled_values AOI (STR_full_cover coll)))
       \<and> wetVeg = Max (set (pooled_values AOI (STR_full_cover coll)))
       \<and> dryBare = Min (set (pooled_values AOI (STR_bare_soil coll)))
       \<and> wetBare = Max (set (pooled_values AOI (STR_bare_soil coll)))
       \<and> sd AOI parameters = Inr (dryBare' - dryVeg') \<and> sw AOI parameters = Inr (wetBare' - wetVeg')
       \<and> dryVeg' = Max (set (pooled_values AOI (lst_full_cover parameters)))
       \<and> wetVeg' = Min (set (pooled_values AOI (lst_full_cover parameters)))
       \<and> dryBare' = Max (set (pooled_values AOI (lst_bareland parameters)))
       \<and> wetBare' = Min (set (pooled_values AOI (lst_bareland parameters)))"
proof -
  have deltas: "sd_opt AOI coll = Inr (dryVeg - dryBare)" "sw_opt AOI coll = Inr (wetVeg - wetBare)"
    "sd AOI parameters = Inr (dryBare' - dryVeg')" "sw AOI parameters = Inr (wetBare' - wetVeg')"
    using assms by (simp_all add: sd_opt_def sw_opt_def sd_def sw_def subtract_def)
  have opt: "dryVeg = Min (set (pooled_values AOI (STR_full_cover coll)))"
    "wetVeg = Max (set (pooled_values AOI (STR_full_cover coll)))"
    "dryBare = Min (set (pooled_values AOI (STR_bare_soil coll)))"
    "wetBare = Max (set (pooled_values AOI (STR_bare_soil coll)))"
    using assms(1-4) by (simp_all add: corner_defs corner_min_Inr corner_max_Inr)
  have tot: "dryVeg' = Max (set (pooled_values AOI (lst_full_cover parameters)))"
    "wetVeg' = Min (set (pooled_values AOI (lst_full_cover parameters)))"
    "dryBare' = Max (set (pooled_values AOI (lst_bareland parameters)))"
    "wetBare' = Min (set (pooled_values AOI (lst_bareland parameters)))"
    using assms(5-8) by (simp_all add: corner_defs corner_min_Inr corner_max_Inr)
  from deltas opt tot show ?thesis by simp
qed

theorem trapezoid_deltas_witness:
  "vw_opt [0] three_scenes = Inr (12 / 10) \<and> vd_opt [0] three_scenes = Inr (11 / 10)
   \<and> iw_opt [0] three_scenes = Inr 2 \<and> id_opt [0] three_scenes = Inr 2
   \<and> vw [0] landsat_scenes = Inr (14798743 / 50000) \<and> vd [0] landsat_scenes = Inr (3742411 / 12500)
   \<and> iw [0] landsat_scenes = Inr (15482347 / 50000) \<and> id_tot [0] landsat_scenes = Inr (319901 / 1000)
   \<and> sd_opt [0] three_scenes = Inr (11 / 10 - 2) \<and> sw_opt [0] three_scenes = Inr (12 / 10 - 2)
   \<and> sd [0] landsat_scenes = Inr (319901 / 1000 - 3742411 / 12500)
   \<and> sw [0] landsat_scenes = Inr (15482347 / 50000 - 14798743 / 50000)"
  using trapezoid_deltas [OF three_vw three_vd three_iw three_id
                             landsat_vw landsat_vd landsat_iw landsat_id]
  by (simp add: three_vw three_vd three_iw three_id landsat_vw landsat_vd landsat_iw landsat_id)

section \<open>Vegetation-class masks\<close>

lemma full_pixel: "NDVI img p = Some n \<Longrightarrow> full img p = Some (if 6 / 10 \<le> n then 1 else 0)"
  by (simp add: full_def gte_def)

lemma bare_pixel:
  "NDVI img p = Some n \<Longrightarrow> bare img p = Some (if 1 / 10 \<le> n \<and> n \<le> 2 / 10 then 1 else 0)"
  by (simp add: bare_def and_ee_def band2_def gte_def lte_def)

lemma ndvi_full_pixel: "NDVI img p = Some n \<Longrightarrow> ndvi_full img p = Some (if 3 / 10 < n then 1 else 0)"
  by (simp add: ndvi_full_def gt_def)

lemma ndvi_bare_pixel:
  "NDVI img p = Some n \<Longrightarrow> ndvi_bare img p = Some (if 0 \<le> n \<and> n < 2 / 10 then 1 else 0)"
  by (simp add: ndvi_bare_def and_ee_def band2_def gte_def lt_def)

lemma updateMask_pixel:
  "mk p = Some x \<Longrightarrow> updateMask b mk p = (if x \<noteq> 0 then b p else None)"
  by (cases "b p") (simp_all add: updateMask_def)

text \<open>From integer digital numbers the Landsat-8 NDVI is never exactly 0.3: that would
  need \<open>77 b5 - 143 b4 = -480000\<close>, and 11 divides the left-hand side only.\<close>

lemma dn_ratio_not_threshold:
  fixes a b :: int
  defines "x \<equiv> real_of_int b * (275 / 10000000) + - (2 / 10)"
    and "y \<equiv> real_of_int a * (275 / 10000000) + - (2 / 10)"
  shows "ee_divide (x - y) (x + y) \<noteq> 3 / 10"
proof
  assume eq: "ee_divide (x - y) (x + y) = 3 / 10"
  then have nz: "x + y \<noteq> 0"
    by (auto simp: ee_divide_def)
  with eq have "(x - y) / (x + y) = 3 / 10"
    by (simp add: ee_divide_def)
  with nz have "10 * (x - y) = 3 * (x + y)"
    by (simp add: field_simps)
  then have "77 * real_of_int b - 143 * real_of_int a = - 480000"
    by (simp add: x_def y_def)
  then have "real_of_int (77 * b - 143 * a) = real_of_int (- 480000)"
    by simp
  then have "77 * b - 143 * a = - 480000"
    by (simp only: of_int_eq_iff)
  moreover have "77 * b - 143 * a = 11 * (7 * b - 13 * a)"
    by simp
  ultimately have "(11::int) dvd - 480000"
    by (metis dvd_triv_left)
  then show False
    by simp
qed

lemma parameters_image_NDVI:
  assumes "NDVI (parameters_image raw) q = Some m"
  shows "\<exists>a b. SR_B4 raw q = Some a \<and> SR_B5 raw q = Some b
           \<and> m = ee_divide
                 ((real_of_int b * (275 / 10000000) + - (2 / 10))
                    - (real_of_int a * (275 / 10000000) + - (2 / 10)))
                 ((real_of_int b * (275 / 10000000) + - (2 / 10))
                    + (real_of_int a * (275 / 10000000) + - (2 / 10)))"
  using assms
  by (auto simp: parameters_image_def normalizedDifference_def multiply_add_def
      split: option.splits if_splits)

lemma parameters_image_NDVI_not_threshold:
  assumes "NDVI (parameters_image raw) q = Some m"
  shows "m \<noteq> 3 / 10"
proof -
  from parameters_image_NDVI [OF assms] obtain a b where
    "m = ee_divide
           ((real_of_int b * (275 / 10000000) + - (2 / 10))
              - (real_of_int a * (275 / 10000000) + - (2 / 10)))
           ((real_of_int b * (275 / 10000000) + - (2 / 10))
              + (real_of_int a * (275 / 10000000) + - (2 / 10)))"
    by blast
  then show ?thesis
    using dn_ratio_not_threshold [of b a] by simp
qed

text \<open>
  Claim C8. At every pixel with a valid NDVI value, the masks are boolean (0 or 1)
  functions of that value alone. Sentinel-2 script, NDVI \<open>n\<close>: full cover holds iff
  \<open>n \<ge> 0.6\<close>, bare soil iff \<open>0.1 \<le> n \<le> 0.2\<close>. Landsat-8 script: the test in the code is
  \<open>k > 0.3\<close> for full cover and \<open>0 \<le> k < 0.2\<close> for bare soil, for any NDVI \<open>k\<close>; on every image
  the script itself builds (NDVI \<open>m\<close> computed from the integer digital numbers of the two
  optical bands) \<open>m\<close> is never exactly 0.3, so full cover holds iff \<open>m \<ge> 0.3\<close>. In each script
  no pixel satisfies both predicates, and the masked source band keeps the pixel exactly
  where the predicate holds.
\<close>

theorem vegetation_masks:
  assumes "NDVI img p = Some n" and "NDVI (parameters_image raw) q = Some m"
    and "NDVI limg r = Some k"
  shows "full img p = Some (if 6 / 10 \<le> n then 1 else 0)
       \<and> bare img p = Some (if 1 / 10 \<le> n \<and> n \<le> 2 / 10 then 1 else 0)
       \<and> \<not> (full img p = Some 1 \<and> bare img p = Some 1)
       \<and> updateMask (STR_band img) (full img) p = (if 6 / 10 \<le> n then STR_band img p else None)
       \<and> updateMask (STR_band img) (bare img) p
           = (if 1 / 10 \<le> n \<and> n \<le> 2 / 10 then STR_band img p else None)
       \<and> m \<noteq> 3 / 10
       \<and> ndvi_full (parameters_image raw) q = Some (if 3 / 10 \<le> m then 1 else 0)
       \<and> ndvi_bare (parameters_image raw) q = Some (if 0 \<le> m \<and> m < 2 / 10 then 1 else 0)
       \<and> \<not> (ndvi_full (parameters_image raw) q = Some 1 \<and> ndvi_bare (parameters_image raw) q = Some 1)
       \<and> updateMask (LST (parameters_image raw)) (ndvi_full (parameters_image raw)) q
           = (if 3 / 10 \<le> m then LST (parameters_image raw) q else None)
       \<and> updateMask (LST (parameters_image raw)) (ndvi_bare (parameters_image raw)) q
           = (if 0 \<le> m \<and> m < 2 / 10 then LST (parameters_image raw) q else None)
       \<and> ndvi_full limg r = Some (if 3 / 10 < k then 1 else 0)
       \<and> ndvi_bare limg r = Some (if 0 \<le> k \<and> k < 2 / 10 then 1 else 0)
       \<and> \<not> (ndvi_full limg r = Some 1 \<and> ndvi_bare limg r = Some 1)
       \<and> updateMask (LST limg) (ndvi_full limg) r = (if 3 / 10 < k then LST limg r else None)
       \<and> updateMask (LST limg) (ndvi_bare limg) r
           = (if 0 \<le> k \<and> k < 2 / 10 then LST limg r else None)"
proof -
  note s2 = full_pixel [OF assms(1)] bare_pixel [OF assms(1)]
  note l8 = ndvi_full_pixel [OF assms(3)] ndvi_bare_pixel [OF assms(3)]
  note ne = parameters_image_NDVI_not_threshold [OF assms(2)]
  then have ge: "3 / 10 < m \<longleftrightarrow> 3 / 10 \<le> m"
    by auto
  have dn: "ndvi_full (parameters_image raw) q = Some (if 3 / 10 \<le> m then 1 else 0)"
    "ndvi_bare (parameters_image raw) q = Some (if 0 \<le> m \<and> m < 2 / 10 then 1 else 0)"
    using ndvi_full_pixel [OF assms(2)] ndvi_bare_pixel [OF assms(2)] ge by simp_all
  have a: "\<not> (full img p = Some 1 \<and> bare img p = Some 1)"
    unfolding s2 by simp
  have b: "\<not> (ndvi_full limg r = Some 1 \<and> ndvi_bare limg r = Some 1)"
    unfolding l8 by simp
  have b': "\<not> (ndvi_full (parameters_image raw) q = Some 1
               \<and> ndvi_bare (parameters_image raw) q = Some 1)"
    unfolding dn by simp
  have c: "updateMask (STR_band img) (full img) p = (if 6 / 10 \<le> n then STR_band img p else None)"
    "updateMask (STR_band img) (bare img) p
       = (if 1 / 10 \<le> n \<and> n \<le> 2 / 10 then STR_band img p else None)"
    by (simp_all add: updateMask_pixel [of "full img", OF s2(1)]
        updateMask_pixel [of "bare img", OF s2(2)])
  have d: "updateMask (LST limg) (ndvi_full limg) r = (if 3 / 10 < k then LST limg r else None)"
    "updateMask (LST limg) (ndvi_bare limg) r
       = (if 0 \<le> k \<and> k < 2 / 10 then LST limg r else None)"
    by (simp_all add: updateMask_pixel [of "ndvi_full limg", OF l8(1)]
        updateMask_pixel [of "ndvi_bare limg", OF l8(2)])
  have d': "updateMask (LST (parameters_image raw)) (ndvi_full (parameters_image raw)) q
           = (if 3 / 10 \<le> m then LST (parameters_image raw) q else None)"
    "updateMask (LST (parameters_image raw)) (ndvi_bare (parameters_image raw)) q
           = (if 0 \<le> m \<and> m < 2 / 10 then LST (parameters_image raw) q else None)"
    by (simp_all add: updateMask_pixel [of "ndvi_full (parameters_image raw)", OF dn(1)]
        updateMask_pixel [of "ndvi_bare (parameters_image raw)", OF dn(2)])
  from s2 l8 ne dn a b b' c d d' show ?thesis by simp
qed

theorem vegetation_masks_witness:
  "NDVI (s2_pixel 1 (65 / 100) (12 / 10)) 0 = Some (65 / 100)
   \<and> NDVI (l8_pixel 2 11000 10000 50000) 0 = Some (11 / 71)
   \<and> full (s2_pixel 1 (65 / 100) (12 / 10)) 0 = Some 1
   \<and> bare (s2_pixel 1 (65 / 100) (12 / 10)) 0 = Some 0
   \<and> ndvi_full (l8_pixel 2 11000 10000 50000) 0 = Some 0
   \<and> ndvi_bare (l8_pixel 2 11000 10000 50000) 0 = Some 1
   \<and> updateMask (LST (l8_pixel 2 11000 10000 50000)) (ndvi_bare (l8_pixel 2 11000 10000 50000)) 0
       = Some (319901 / 1000)
   \<and> ndvi_full (l8_pixel 1 20000 10000 44000) 0 = Some 1"
proof -
  have h1: "NDVI (s2_pixel 1 (65 / 100) (12 / 10)) 0 = Some (65 / 100)"
    by (simp add: s2_pixel_def)
  have h2: "NDVI (l8_pixel 2 11000 10000 50000) 0 = Some (11 / 71)"
    by (simp add: l8_pixel_def parameters_image_def normalizedDifference_def multiply_add_def
        ee_divide_def)
  have h3: "NDVI (l8_pixel 1 20000 10000 44000) 0 = Some (11 / 17)"
    by (simp add: l8_pixel_def parameters_image_def normalizedDifference_def multiply_add_def
        ee_divide_def)
  have l: "LST (l8_pixel 2 11000 10000 50000) 0 = Some (319901 / 1000)"
    by (simp add: l8_pixel_def parameters_image_def multiply_add_def)
  show ?thesis
    using vegetation_masks [OF h1 h2 [unfolded l8_pixel_def] h3]
      vegetation_masks [OF h1 h3 [unfolded l8_pixel_def] h3] h1 h2 l
    by (simp add: l8_pixel_def)
qed

section \<open>The model evaluator\<close>

lemma restrict_propertyNames: "m |` propertyNames m = m"
  by (rule ext) (simp add: restrict_map_def propertyNames_def domIff)

text \<open>With the four scalars available, the image each evaluator returns.\<close>

lemma optram_image_Inr:
  assumes "id_opt AOI coll = Inr a" "sd_opt AOI coll = Inr b"
    and "iw_opt AOI coll = Inr c" "sw_opt AOI coll = Inr d"
  shows "optram_image AOI coll img =
    Inr \<lparr>bands = [(''soil_moisture'', band2 (optram_expression a b c d) (NDVI img) (STR_band img))],
         properties = (props img)(''model'' \<mapsto> Str ''OPTRAM'', ''units'' \<mapsto> Str ''%'')\<rparr>"
  using assms
  by (simp add: optram_image_def expression_def set_properties_def copyProperties_def rename_def
      restrict_propertyNames)

lemma OPTRAM_median_Inr:
  assumes "id_opt AOI coll = Inr a" "sd_opt AOI coll = Inr b"
    and "iw_opt AOI coll = Inr c" "sw_opt AOI coll = Inr d"
  shows "OPTRAM_median AOI coll imgMedian =
    Inr \<lparr>bands = [(''soil_moisture'',
                    band2 (optram_expression a b c d) (NDVI imgMedian) (STR_band imgMedian))],
         properties = [''model'' \<mapsto> Str ''OPTRAM'',
            ''model_ref'' \<mapsto> Str ''Sadeghi et al. (adapted).'',
            ''units'' \<mapsto> Str ''%'',
            ''notes'' \<mapsto> Str ''Relative surface soil moisture estimated by OPTRAM from Sentinel-2 STR & NDVI'']\<rparr>"
  using assms
  by (simp add: OPTRAM_median_def expression_def set_properties_def rename_def)

lemma sm_image_Inr:
  assumes "id_tot AOI parameters = Inr a" "sd AOI parameters = Inr b"
    and "iw AOI parameters = Inr c" "sw AOI parameters = Inr d"
  shows "sm_image AOI parameters img =
    Inr \<lparr>bands = [(''soil_moisture'', band2 (totram_expression a b c d) (NDVI img) (LST img))],
         properties = (props img)(''model'' \<mapsto> Str ''TOTRAM'', ''units'' \<mapsto> Str ''relative'')\<rparr>"
  using assms
  by (simp add: sm_image_def expression_def set_properties_def copyProperties_def rename_def
      restrict_propertyNames)

lemma series_bands_sm_series:
  assumes "id_tot AOI parameters = Inr a" "sd AOI parameters = Inr b"
    and "iw AOI parameters = Inr c" "sw AOI parameters = Inr d"
  shows "series_bands (map (sm_image AOI parameters) qs)
         = Inr (map (\<lambda>img. band2 (totram_expression a b c d) (NDVI img) (LST img)) qs)"
  by (induction qs) (simp_all add: sm_image_Inr [OF assms] select_def)

lemma sm_mean_Inr:
  assumes "id_tot AOI parameters = Inr a" "sd AOI parameters = Inr b"
    and "iw AOI parameters = Inr c" "sw AOI parameters = Inr d"
    and "parameters \<noteq> []"
  shows "sm_mean AOI parameters =
    Inr \<lparr>bands = [(''sm_mean'', collection_mean
              (map (\<lambda>img. band2 (totram_expression a b c d) (NDVI img) (LST img)) parameters))],
         properties = [''model'' \<mapsto> Str ''TOTRAM'', ''units'' \<mapsto> Str ''relative'',
                       ''notes'' \<mapsto> Str ''Thermal-optical relative soil moisture (TOTRAM)'']\<rparr>"
  using assms(5)
  by (simp add: sm_mean_def sm_series_def series_bands_sm_series [OF assms(1-4)]
      set_properties_def rename_def)

lemma optram_series_nth:
  "k < length coll \<Longrightarrow> optram_series AOI coll ! k = optram_image AOI coll (coll ! k)"
  by (simp add: optram_series_def)

lemma sm_series_nth:
  "k < length parameters \<Longrightarrow> sm_series AOI parameters ! k = sm_image AOI parameters (parameters ! k)"
  by (simp add: sm_series_def)

text \<open>One pixel of the two expressions, away from a zero denominator.\<close>

lemma optram_expression_quotient:
  "(i_d - i_w) + (s_d - s_w) * n \<noteq> 0 \<Longrightarrow>
   optram_expression i_d s_d i_w s_w n s
   = 100 * ((i_d + s_d * n - s) / ((i_d - i_w) + (s_d - s_w) * n))"
  by (simp add: optram_expression_def ee_divide_def)

lemma totram_expression_quotient:
  "(i_d - i_w) + (s_d - s_w) * n \<noteq> 0 \<Longrightarrow>
   totram_expression i_d s_d i_w s_w n l
   = (i_d + s_d * n - l) / ((i_d - i_w) + (s_d - s_w) * n)"
  by (simp add: totram_expression_def ee_divide_def)

lemma value_at_optram_image:
  assumes "id_opt AOI coll = Inr a" "sd_opt AOI coll = Inr b"
    and "iw_opt AOI coll = Inr c" "sw_opt AOI coll = Inr d"
    and "NDVI img p = Some n" "STR_band img p = Some s"
  shows "value_at (optram_image AOI coll img) ''soil_moisture'' p
         = Inr (Some (optram_expression a b c d n s))"
  using assms(5,6)
  by (simp add: optram_image_Inr [OF assms(1-4)] value_at_def select_def band2_def)

lemma value_at_OPTRAM_median:
  assumes "id_opt AOI coll = Inr a" "sd_opt AOI coll = Inr b"
    and "iw_opt AOI coll = Inr c" "sw_opt AOI coll = Inr d"
    and "NDVI imgMedian p = Some n" "STR_band imgMedian p = Some s"
  shows "value_at (OPTRAM_median AOI coll imgMedian) ''soil_moisture'' p
         = Inr (Some (optram_expression a b c d n s))"
  using assms(5,6)
  by (simp add: OPTRAM_median_Inr [OF assms(1-4)] value_at_def select_def band2_def)

lemma value_at_sm_image:
  assumes "id_tot AOI parameters = Inr a" "sd AOI parameters = Inr b"
    and "iw AOI parameters = Inr c" "sw AOI parameters = Inr d"
    and "NDVI img p = Some n" "LST img p = Some l"
  shows "value_at (sm_image AOI parameters img) ''soil_moisture'' p
         = Inr (Some (totram_expression a b c d n l))"
  using assms(5,6)
  by (simp add: sm_image_Inr [OF assms(1-4)] value_at_def select_def band2_def)

lemma three_scenes_nth0: "three_scenes ! 0 = s2_pixel 1 (65 / 100) (12 / 10)"
  by (simp add: three_scenes_def)

lemma landsat_scenes_nth0: "landsat_scenes ! 0 = l8_pixel 1 20000 10000 44000"
  by (simp add: landsat_scenes_def)

lemma four_scenes_nth3: "four_scenes ! 3 = s2_pixel 4 (1 / 1000000) 1"
  by (simp add: four_scenes_def three_scenes_def)

lemma s2_pixel_bands [simp]:
  "NDVI (s2_pixel t n s) 0 = Some n" "STR_band (s2_pixel t n s) 0 = Some s"
  by (simp_all add: s2_pixel_def)

lemma l8_pixel_bands [simp]:
  "NDVI (l8_pixel 1 20000 10000 44000) 0 = Some (11 / 17)"
  "LST (l8_pixel 1 20000 10000 44000) 0 = Some (3742411 / 12500)"
  by (simp_all add: l8_pixel_def parameters_image_def normalizedDifference_def multiply_add_def
      ee_divide_def)

text \<open>
  Claim C2. With the trapezoid parameters of the collection (\<open>i_d\<close>, \<open>i_w\<close> the dry and wet
  bare-soil corners, \<open>s_d\<close>, \<open>s_w\<close> the two deltas), at every pixel of every image where NDVI
  and the source band are valid and the denominator is not zero, the evaluator's value is
  the quotient \<open>(i_d + s_d n - src) / ((i_d - i_w) + (s_d - s_w) n)\<close>: scaled by 100 in
  the Sentinel-2 script (reference composite and every image of the series), whose outputs
  declare the units \<open>%\<close>, and unscaled in the Landsat-8 script, whose outputs declare the
  units \<open>relative\<close>.
\<close>

theorem evaluator_formula_and_units:
  assumes "id_opt AOI coll = Inr i_d" "sd_opt AOI coll = Inr s_d"
    and "iw_opt AOI coll = Inr i_w" "sw_opt AOI coll = Inr s_w"
    and "id_tot AOI parameters = Inr j_d" "sd AOI parameters = Inr t_d"
    and "iw AOI parameters = Inr j_w" "sw AOI parameters = Inr t_w"
  shows "(\<forall>p n s. NDVI imgMedian p = Some n \<longrightarrow> STR_band imgMedian p = Some s
            \<longrightarrow> (i_d - i_w) + (s_d - s_w) * n \<noteq> 0
            \<longrightarrow> value_at (OPTRAM_median AOI coll imgMedian) ''soil_moisture'' p
                = Inr (Some (100 * ((i_d + s_d * n - s) / ((i_d - i_w) + (s_d - s_w) * n)))))
       \<and> property_at (OPTRAM_median AOI coll imgMedian) ''units'' = Inr (Some (Str ''%''))
       \<and> (\<forall>k p n s. k < length coll \<longrightarrow> NDVI (coll ! k) p = Some n
            \<longrightarrow> STR_band (coll ! k) p = Some s
            \<longrightarrow> (i_d - i_w) + (s_d - s_w) * n \<noteq> 0
            \<longrightarrow> value_at (optram_series AOI coll ! k) ''soil_moisture'' p
                = Inr (Some (100 * ((i_d + s_d * n - s) / ((i_d - i_w) + (s_d - s_w) * n)))))
       \<and> (\<forall>k. k < length coll \<longrightarrow>
            property_at (optram_series AOI coll ! k) ''units'' = Inr (Some (Str ''%'')))
       \<and> (\<forall>k p n l. k < length parameters \<longrightarrow> NDVI (parameters ! k) p = Some n
            \<longrightarrow> LST (parameters ! k) p = Some l
            \<longrightarrow> (j_d - j_w) + (t_d - t_w) * n \<noteq> 0
            \<longrightarrow> value_at (sm_series AOI parameters ! k) ''soil_moisture'' p
                = Inr (Some ((j_d + t_d * n - l) / ((j_d - j_w) + (t_d - t_w) * n))))
       \<and> (\<forall>k. k < length parameters \<longrightarrow>
            property_at (sm_series AOI parameters ! k) ''units'' = Inr (Some (Str ''relative'')))"
proof -
  note opt = assms(1-4) and tot = assms(5-8)
  have median: "\<forall>p n s. NDVI imgMedian p = Some n \<longrightarrow> STR_band imgMedian p = Some s
            \<longrightarrow> (i_d - i_w) + (s_d - s_w) * n \<noteq> 0
            \<longrightarrow> value_at (OPTRAM_median AOI coll imgMedian) ''soil_moisture'' p
                = Inr (Some (100 * ((i_d + s_d * n - s) / ((i_d - i_w) + (s_d - s_w) * n))))"
    by (simp add: value_at_OPTRAM_median [OF opt] optram_expression_quotient)
  have median_units:
    "property_at (OPTRAM_median AOI coll imgMedian) ''units'' = Inr (Some (Str ''%''))"
    by (simp add: OPTRAM_median_Inr [OF opt] property_at_def)
  have series: "\<forall>k p n s. k < length coll \<longrightarrow> NDVI (coll ! k) p = Some n
            \<longrightarrow> STR_band (coll ! k) p = Some s
            \<longrightarrow> (i_d - i_w) + (s_d - s_w) * n \<noteq> 0
            \<longrightarrow> value_at (optram_series AOI coll ! k) ''soil_moisture'' p
                = Inr (Some (100 * ((i_d + s_d * n - s) / ((i_d - i_w) + (s_d - s_w) * n))))"
    by (simp add: optram_series_nth value_at_optram_image [OF opt] optram_expression_quotient)
  have series_units: "\<forall>k. k < length coll \<longrightarrow>
            property_at (optram_series AOI coll ! k) ''units'' = Inr (Some (Str ''%''))"
    by (simp add: optram_series_nth optram_image_Inr [OF opt] property_at_def)
  have sm: "\<forall>k p n l. k < length parameters \<longrightarrow> NDVI (parameters ! k) p = Some n
            \<longrightarrow> LST (parameters ! k) p = Some l
            \<longrightarrow> (j_d - j_w) + (t_d - t_w) * n \<noteq> 0
            \<longrightarrow> value_at (sm_series AOI parameters ! k) ''soil_moisture'' p
                = Inr (Some ((j_d + t_d * n - l) / ((j_d - j_w) + (t_d - t_w) * n)))"
    by (simp add: sm_series_nth value_at_sm_image [OF tot] totram_expression_quotient)
  have sm_units: "\<forall>k. k < length parameters \<longrightarrow>
            property_at (sm_series AOI parameters ! k) ''units'' = Inr (Some (Str ''relative''))"
    by (simp add: sm_series_nth sm_image_Inr [OF tot] property_at_def)
  from median median_units series series_units sm sm_units show ?thesis by blast
qed

theorem evaluator_formula_and_units_witness:
  "id_opt [0] three_scenes = Inr 2 \<and> sd_opt [0] three_scenes = Inr (- (9 / 10))
   \<and> iw_opt [0] three_scenes = Inr 2 \<and> sw_opt [0] three_scenes = Inr (- (8 / 10))
   \<and> id_tot [0] landsat_scenes = Inr (319901 / 1000) \<and> sd [0] landsat_scenes = Inr (512703 / 25000)
   \<and> iw [0] landsat_scenes = Inr (15482347 / 50000) \<and> sw [0] landsat_scenes = Inr (170901 / 12500)
   \<and> value_at (OPTRAM_median [0] three_scenes (s2_pixel 0 (1 / 2) 1)) ''soil_moisture'' 0
       = Inr (Some (- 1100))
   \<and> value_at (optram_series [0] three_scenes ! 0) ''soil_moisture'' 0 = Inr (Some (- (4300 / 13)))
   \<and> property_at (optram_series [0] three_scenes ! 0) ''units'' = Inr (Some (Str ''%''))
   \<and> value_at (sm_series [0] landsat_scenes ! 0) ''soil_moisture'' 0 = Inr (Some (168 / 73))
   \<and> property_at (sm_series [0] landsat_scenes ! 0) ''units'' = Inr (Some (Str ''relative''))"
proof -
  note inst = evaluator_formula_and_units [OF three_id three_sd three_iw three_sw
      landsat_id landsat_sd landsat_iw landsat_sw, of "s2_pixel 0 (1 / 2) 1"]
  have len: "0 < length three_scenes" "0 < length landsat_scenes"
    by (simp_all add: three_scenes_def landsat_scenes_def)
  note median = inst [THEN conjunct1, rule_format, of 0 "1 / 2" 1]
  note series = inst [THEN conjunct2, THEN conjunct2, THEN conjunct1, rule_format,
      of 0 0 "65 / 100" "12 / 10"]
  note series_units = inst [THEN conjunct2, THEN conjunct2, THEN conjunct2, THEN conjunct1,
      rule_format, of 0]
  note sm = inst [THEN conjunct2, THEN conjunct2, THEN conjunct2, THEN conjunct2,
      THEN conjunct1, rule_format, of 0 0 "11 / 17" "3742411 / 12500"]
  note sm_units = inst [THEN conjunct2, THEN conjunct2, THEN conjunct2, THEN conjunct2,
      THEN conjunct2, rule_format, of 0]
  have a: "value_at (OPTRAM_median [0] three_scenes (s2_pixel 0 (1 / 2) 1)) ''soil_moisture'' 0
       = Inr (Some (- 1100))"
    using median by simp
  have b: "value_at (optram_series [0] three_scenes ! 0) ''soil_moisture'' 0
       = Inr (Some (- (4300 / 13)))"
    using series len by (simp add: three_scenes_nth0)
  have c: "value_at (sm_series [0] landsat_scenes ! 0) ''soil_moisture'' 0 = Inr (Some (168 / 73))"
    using sm len by (simp add: landsat_scenes_nth0)
  have d: "property_at (optram_series [0] three_scenes ! 0) ''units'' = Inr (Some (Str ''%''))"
    "property_at (sm_series [0] landsat_scenes ! 0) ''units'' = Inr (Some (Str ''relative''))"
    using series_units sm_units len by simp_all
  show ?thesis
    using a b c d
    by (simp add: three_id three_sd three_iw three_sw landsat_id landsat_sd landsat_iw landsat_sw)
qed

section \<open>Small denominators\<close>

lemma quotient_blow_up:
  fixes num den eps :: real
  assumes "den \<noteq> 0" "\<bar>den\<bar> \<le> eps"
  shows "\<bar>num\<bar> \<le> \<bar>num / den\<bar> * eps"
proof -
  have "num = (num / den) * den"
    using assms(1) by simp
  then have "\<bar>num\<bar> = \<bar>(num / den) * den\<bar>"
    by simp
  also have "\<dots> = \<bar>num / den\<bar> * \<bar>den\<bar>"
    by (rule abs_mult)
  also have "\<dots> \<le> \<bar>num / den\<bar> * eps"
    using assms(2) by (intro mult_left_mono) simp_all
  finally show ?thesis .
qed

text \<open>
  Claim C5, as the claim states it, fails: the scripts contain no denominator guard. On
  the four-image collection the fourth image has NDVI \<open>10\<^sup>-\<^sup>6\<close> at its pixel; the denominator
  there is \<open>-10\<^sup>-\<^sup>7\<close>, and the output pixel is valid and carries the value \<open>-999999100\<close>
  (in units of percent).
\<close>

theorem near_zero_denominator_counterexample:
  "id_opt [0] four_scenes = Inr 2 \<and> sd_opt [0] four_scenes = Inr (- (9 / 10))
   \<and> iw_opt [0] four_scenes = Inr 2 \<and> sw_opt [0] four_scenes = Inr (- (8 / 10))
   \<and> NDVI (four_scenes ! 3) 0 = Some (1 / 1000000) \<and> STR_band (four_scenes ! 3) 0 = Some 1
   \<and> (2 - 2) + (- (9 / 10) - - (8 / 10)) * (1 / 1000000) = - (1 / 10000000 :: real)
   \<and> value_at (optram_series [0] four_scenes ! 3) ''soil_moisture'' 0 = Inr (Some (- 999999100))"
proof -
  have len: "3 < length four_scenes"
    by (simp add: four_scenes_def three_scenes_def)
  have "value_at (optram_series [0] four_scenes ! 3) ''soil_moisture'' 0
        = Inr (Some (optram_expression 2 (- (9 / 10)) 2 (- (8 / 10)) (1 / 1000000) 1))"
    using len
    by (simp add: optram_series_nth four_scenes_nth3
        value_at_optram_image [OF four_id four_sd four_iw four_sw
          s2_pixel_bands(1) s2_pixel_bands(2)])
  then show ?thesis
    by (simp add: four_id four_sd four_iw four_sw four_scenes_nth3
        optram_expression_def ee_divide_def)
qed

lemma scaled_quotient_blow_up:
  fixes num den eps :: real
  assumes "den \<noteq> 0" "\<bar>den\<bar> \<le> eps"
  shows "100 * \<bar>num\<bar> \<le> \<bar>100 * (num / den)\<bar> * eps"
proof -
  have "\<bar>num\<bar> \<le> \<bar>num / den\<bar> * eps"
    by (rule quotient_blow_up [OF assms])
  then have "100 * \<bar>num\<bar> \<le> 100 * (\<bar>num / den\<bar> * eps)"
    by (rule mult_left_mono) simp
  also have "\<dots> = \<bar>100 * (num / den)\<bar> * eps"
    by (simp only: abs_mult abs_numeral mult.assoc)
  finally show ?thesis .
qed

text \<open>
  Claim C5, amended. The evaluator has no denominator guard: at every pixel where NDVI and
  the source band are valid and the denominator \<open>(i_d - i_w) + (s_d - s_w) n\<close> is non-zero,
  however close to zero, the output pixel is valid and carries the quotient, times 100 in
  the Sentinel-2 script (reference composite and every image of the series) and unscaled
  in the Landsat-8 series; so when the denominator is at most \<open>eps\<close> in absolute value, the
  output is at least \<open>|numerator| / eps\<close> in absolute value (times 100), without bound as
  \<open>eps\<close> tends to zero.
\<close>

theorem no_denominator_guard:
  assumes "id_opt AOI coll = Inr i_d" "sd_opt AOI coll = Inr s_d"
    and "iw_opt AOI coll = Inr i_w" "sw_opt AOI coll = Inr s_w"
    and "id_tot AOI parameters = Inr j_d" "sd AOI parameters = Inr t_d"
    and "iw AOI parameters = Inr j_w" "sw AOI parameters = Inr t_w"
  shows "(\<forall>p n s eps. NDVI imgMedian p = Some n
            \<longrightarrow> STR_band imgMedian p = Some s
            \<longrightarrow> (i_d - i_w) + (s_d - s_w) * n \<noteq> 0
            \<longrightarrow> \<bar>(i_d - i_w) + (s_d - s_w) * n\<bar> \<le> eps
            \<longrightarrow> value_at (OPTRAM_median AOI coll imgMedian) ''soil_moisture'' p
                  = Inr (Some (100 * ((i_d + s_d * n - s) / ((i_d - i_w) + (s_d - s_w) * n))))
                \<and> 100 * \<bar>i_d + s_d * n - s\<bar>
                  \<le> \<bar>100 * ((i_d + s_d * n - s) / ((i_d - i_w) + (s_d - s_w) * n))\<bar> * eps)
       \<and> (\<forall>k p n s eps. k < length coll \<longrightarrow> NDVI (coll ! k) p = Some n
            \<longrightarrow> STR_band (coll ! k) p = Some s
            \<longrightarrow> (i_d - i_w) + (s_d - s_w) * n \<noteq> 0
            \<longrightarrow> \<bar>(i_d - i_w) + (s_d - s_w) * n\<bar> \<le> eps
            \<longrightarrow> value_at (optram_series AOI coll ! k) ''soil_moisture'' p
                  = Inr (Some (100 * ((i_d + s_d * n - s) / ((i_d - i_w) + (s_d - s_w) * n))))
                \<and> 100 * \<bar>i_d + s_d * n - s\<bar>
                  \<le> \<bar>100 * ((i_d + s_d * n - s) / ((i_d - i_w) + (s_d - s_w) * n))\<bar> * eps)
       \<and> (\<forall>k p n l eps. k < length parameters \<longrightarrow> NDVI (parameters ! k) p = Some n
            \<longrightarrow> LST (parameters ! k) p = Some l
            \<longrightarrow> (j_d - j_w) + (t_d - t_w) * n \<noteq> 0
            \<longrightarrow> \<bar>(j_d - j_w) + (t_d - t_w) * n\<bar> \<le> eps
            \<longrightarrow> value_at (sm_series AOI parameters ! k) ''soil_moisture'' p
                  = Inr (Some ((j_d + t_d * n - l) / ((j_d - j_w) + (t_d - t_w) * n)))
                \<and> \<bar>j_d + t_d * n - l\<bar>
                  \<le> \<bar>(j_d + t_d * n - l) / ((j_d - j_w) + (t_d - t_w) * n)\<bar> * eps)"
proof -
  note opt = assms(1-4) and tot = assms(5-8)
  have median: "value_at (OPTRAM_median AOI coll imgMedian) ''soil_moisture'' p
                  = Inr (Some (100 * ((i_d + s_d * n - s) / ((i_d - i_w) + (s_d - s_w) * n))))
                \<and> 100 * \<bar>i_d + s_d * n - s\<bar>
                  \<le> \<bar>100 * ((i_d + s_d * n - s) / ((i_d - i_w) + (s_d - s_w) * n))\<bar> * eps"
    if h: "NDVI imgMedian p = Some n" "STR_band imgMedian p = Some s"
      "(i_d - i_w) + (s_d - s_w) * n \<noteq> 0" "\<bar>(i_d - i_w) + (s_d - s_w) * n\<bar> \<le> eps"
    for p n s eps
  proof
    show "value_at (OPTRAM_median AOI coll imgMedian) ''soil_moisture'' p
          = Inr (Some (100 * ((i_d + s_d * n - s) / ((i_d - i_w) + (s_d - s_w) * n))))"
      using h(3)
      by (simp add: value_at_OPTRAM_median [OF opt h(1,2)] optram_expression_quotient)
    show "100 * \<bar>i_d + s_d * n - s\<bar>
          \<le> \<bar>100 * ((i_d + s_d * n - s) / ((i_d - i_w) + (s_d - s_w) * n))\<bar> * eps"
      by (rule scaled_quotient_blow_up [OF h(3,4)])
  qed
  have series: "value_at (optram_series AOI coll ! k) ''soil_moisture'' p
                  = Inr (Some (100 * ((i_d + s_d * n - s) / ((i_d - i_w) + (s_d - s_w) * n))))
                \<and> 100 * \<bar>i_d + s_d * n - s\<bar>
                  \<le> \<bar>100 * ((i_d + s_d * n - s) / ((i_d - i_w) + (s_d - s_w) * n))\<bar> * eps"
    if h: "k < length coll" "NDVI (coll ! k) p = Some n" "STR_band (coll ! k) p = Some s"
      "(i_d - i_w) + (s_d - s_w) * n \<noteq> 0" "\<bar>(i_d - i_w) + (s_d - s_w) * n\<bar> \<le> eps"
    for k p n s eps
  proof
    show "value_at (optram_series AOI coll ! k) ''soil_moisture'' p
          = Inr (Some (100 * ((i_d + s_d * n - s) / ((i_d - i_w) + (s_d - s_w) * n))))"
      using h(1,4)
      by (simp add: optram_series_nth value_at_optram_image [OF opt h(2,3)]
          optram_expression_quotient)
    show "100 * \<bar>i_d + s_d * n - s\<bar>
          \<le> \<bar>100 * ((i_d + s_d * n - s) / ((i_d - i_w) + (s_d - s_w) * n))\<bar> * eps"
      by (rule scaled_quotient_blow_up [OF h(4,5)])
  qed
  have sm: "value_at (sm_series AOI parameters ! k) ''soil_moisture'' p
                  = Inr (Some ((j_d + t_d * n - l) / ((j_d - j_w) + (t_d - t_w) * n)))
                \<and> \<bar>j_d + t_d * n - l\<bar>
                  \<le> \<bar>(j_d + t_d * n - l) / ((j_d - j_w) + (t_d - t_w) * n)\<bar> * eps"
    if h: "k < length parameters" "NDVI (parameters ! k) p = Some n"
      "LST (parameters ! k) p = Some l"
      "(j_d - j_w) + (t_d - t_w) * n \<noteq> 0" "\<bar>(j_d - j_w) + (t_d - t_w) * n\<bar> \<le> eps"
    for k p n l eps
  proof
    show "value_at (sm_series AOI parameters ! k) ''soil_moisture'' p
          = Inr (Some ((j_d + t_d * n - l) / ((j_d - j_w) + (t_d - t_w) * n)))"
      using h(1,4)
      by (simp add: sm_series_nth value_at_sm_image [OF tot h(2,3)] totram_expression_quotient)
    show "\<bar>j_d + t_d * n - l\<bar>
          \<le> \<bar>(j_d + t_d * n - l) / ((j_d - j_w) + (t_d - t_w) * n)\<bar> * eps"
      by (rule quotient_blow_up [OF h(4,5)])
  qed
  from median series sm show ?thesis by blast
qed

theorem no_denominator_guard_witness:
  "id_opt [0] four_scenes = Inr 2 \<and> sd_opt [0] four_scenes = Inr (- (9 / 10))
   \<and> iw_opt [0] four_scenes = Inr 2 \<and> sw_opt [0] four_scenes = Inr (- (8 / 10))
   \<and> id_tot [0] landsat_scenes = Inr (319901 / 1000) \<and> sd [0] landsat_scenes = Inr (512703 / 25000)
   \<and> iw [0] landsat_scenes = Inr (15482347 / 50000) \<and> sw [0] landsat_scenes = Inr (170901 / 12500)
   \<and> (3::nat) < length four_scenes \<and> (0::nat) < length landsat_scenes
   \<and> NDVI (four_scenes ! 3) 0 = Some (1 / 1000000) \<and> STR_band (four_scenes ! 3) 0 = Some 1
   \<and> (2 - 2) + (- (9 / 10) - - (8 / 10)) * (1 / 1000000) \<noteq> (0 :: real)
   \<and> \<bar>(2 - 2) + (- (9 / 10) - - (8 / 10)) * (1 / 1000000)\<bar> \<le> (1 / 10000000 :: real)
   \<and> value_at (OPTRAM_median [0] four_scenes (s2_pixel 0 (1 / 1000000) 1)) ''soil_moisture'' 0
       = Inr (Some (- 999999100))
   \<and> value_at (optram_series [0] four_scenes ! 3) ''soil_moisture'' 0 = Inr (Some (- 999999100))
   \<and> NDVI (landsat_scenes ! 0) 0 = Some (11 / 17)
   \<and> LST (landsat_scenes ! 0) 0 = Some (3742411 / 12500)
   \<and> value_at (sm_series [0] landsat_scenes ! 0) ''soil_moisture'' 0 = Inr (Some (168 / 73))"
proof -
  note inst = no_denominator_guard [OF four_id four_sd four_iw four_sw
      landsat_id landsat_sd landsat_iw landsat_sw, of "s2_pixel 0 (1 / 1000000) 1"]
  note median = inst [THEN conjunct1, rule_format, of 0 "1 / 1000000" 1 "1 / 10000000"]
  note s2 = inst [THEN conjunct2, THEN conjunct1, rule_format,
      of 3 0 "1 / 1000000" 1 "1 / 10000000"]
  note l8 = inst [THEN conjunct2, THEN conjunct2, rule_format,
      of 0 0 "11 / 17" "3742411 / 12500" "733869 / 50000"]
  have len: "(3::nat) < length four_scenes" "(0::nat) < length landsat_scenes"
    by (simp_all add: four_scenes_def three_scenes_def landsat_scenes_def)
  have m: "value_at (OPTRAM_median [0] four_scenes (s2_pixel 0 (1 / 1000000) 1)) ''soil_moisture'' 0
       = Inr (Some (- 999999100))"
    using median by simp
  have a: "value_at (optram_series [0] four_scenes ! 3) ''soil_moisture'' 0
       = Inr (Some (- 999999100))"
    using s2 len by (simp add: four_scenes_nth3)
  have b: "value_at (sm_series [0] landsat_scenes ! 0) ''soil_moisture'' 0 = Inr (Some (168 / 73))"
    using l8 len by (simp add: landsat_scenes_nth0)
  show ?thesis
    using m a b len
    by (simp add: four_id four_sd four_iw four_sw landsat_id landsat_sd landsat_iw landsat_sw
        four_scenes_nth3 landsat_scenes_nth0)
qed

section \<open>Provenance metadata and copied properties\<close>

lemma three_scenes_props0: "props (three_scenes ! 0) = [''system:time_start'' \<mapsto> Num 1]"
  by (simp add: three_scenes_def s2_pixel_def)

lemma landsat_scenes_props0: "props (landsat_scenes ! 0) = [''system:time_start'' \<mapsto> Num 1]"
  by (simp add: landsat_scenes_def l8_pixel_def parameters_image_def)

lemma property_at_optram_image:
  assumes "id_opt AOI coll = Inr a" "sd_opt AOI coll = Inr b"
    and "iw_opt AOI coll = Inr c" "sw_opt AOI coll = Inr d"
  shows "property_at (optram_image AOI coll img) key
         = Inr (((props img)(''model'' \<mapsto> Str ''OPTRAM'', ''units'' \<mapsto> Str ''%'')) key)"
  by (simp add: optram_image_Inr [OF assms] property_at_def)

lemma property_at_sm_image:
  assumes "id_tot AOI parameters = Inr a" "sd AOI parameters = Inr b"
    and "iw AOI parameters = Inr c" "sw AOI parameters = Inr d"
  shows "property_at (sm_image AOI parameters img) key
         = Inr (((props img)(''model'' \<mapsto> Str ''TOTRAM'', ''units'' \<mapsto> Str ''relative'')) key)"
  by (simp add: sm_image_Inr [OF assms] property_at_def)

text \<open>
  Claim C9, as the claim states it, fails: the mean map of the Landsat-8 script carries no
  reference citation, and an image of either time series carries neither a citation nor
  a note unless its source image already had such properties.
\<close>

theorem provenance_counterexample:
  "property_at (sm_mean [0] landsat_scenes) ''model_ref'' = Inr None
   \<and> property_at (optram_series [0] three_scenes ! 0) ''model_ref'' = Inr None
   \<and> property_at (optram_series [0] three_scenes ! 0) ''notes'' = Inr None
   \<and> property_at (sm_series [0] landsat_scenes ! 0) ''model_ref'' = Inr None
   \<and> property_at (sm_series [0] landsat_scenes ! 0) ''notes'' = Inr None"
proof -
  have len: "0 < length three_scenes" "0 < length landsat_scenes"
    by (simp_all add: three_scenes_def landsat_scenes_def)
  have a: "property_at (sm_mean [0] landsat_scenes) ''model_ref'' = Inr None"
    by (simp add: property_at_def
        sm_mean_Inr [OF landsat_id landsat_sd landsat_iw landsat_sw landsat_scenes_nonempty])
  have b: "property_at (optram_series [0] three_scenes ! 0) ''model_ref'' = Inr None"
    "property_at (optram_series [0] three_scenes ! 0) ''notes'' = Inr None"
    using len
    by (simp_all add: optram_series_nth three_scenes_props0
        property_at_optram_image [OF three_id three_sd three_iw three_sw])
  have c: "property_at (sm_series [0] landsat_scenes ! 0) ''model_ref'' = Inr None"
    "property_at (sm_series [0] landsat_scenes ! 0) ''notes'' = Inr None"
    using len
    by (simp_all add: sm_series_nth landsat_scenes_props0
        property_at_sm_image [OF landsat_id landsat_sd landsat_iw landsat_sw])
  from a b c show ?thesis by simp
qed

text \<open>
  Claim C9, amended. When the trapezoid parameters are available: the reference-composite
  output of the Sentinel-2 script carries all four fields (model \<open>OPTRAM\<close>, the citation,
  units \<open>%\<close>, the note); every image of either time series carries the model name and the
  units, and a citation or a note only if its source image had a property of that name;
  the mean map of the Landsat-8 script carries model \<open>TOTRAM\<close>, units \<open>relative\<close> and a
  note, and no citation.
\<close>

theorem provenance_metadata:
  assumes "id_opt AOI coll = Inr i_d" "sd_opt AOI coll = Inr s_d"
    and "iw_opt AOI coll = Inr i_w" "sw_opt AOI coll = Inr s_w"
    and "id_tot AOI parameters = Inr j_d" "sd AOI parameters = Inr t_d"
    and "iw AOI parameters = Inr j_w" "sw AOI parameters = Inr t_w"
    and "parameters \<noteq> []"
  shows "property_at (OPTRAM_median AOI coll imgMedian) ''model'' = Inr (Some (Str ''OPTRAM''))
       \<and> property_at (OPTRAM_median AOI coll imgMedian) ''model_ref''
           = Inr (Some (Str ''Sadeghi et al. (adapted).''))
       \<and> property_at (OPTRAM_median AOI coll imgMedian) ''units'' = Inr (Some (Str ''%''))
       \<and> property_at (OPTRAM_median AOI coll imgMedian) ''notes''
           = Inr (Some (Str ''Relative surface soil moisture estimated by OPTRAM from Sentinel-2 STR & NDVI''))
       \<and> (\<forall>k. k < length coll \<longrightarrow>
             property_at (optram_series AOI coll ! k) ''model'' = Inr (Some (Str ''OPTRAM''))
           \<and> property_at (optram_series AOI coll ! k) ''units'' = Inr (Some (Str ''%''))
           \<and> property_at (optram_series AOI coll ! k) ''model_ref''
               = Inr (props (coll ! k) ''model_ref'')
           \<and> property_at (optram_series AOI coll ! k) ''notes'' = Inr (props (coll ! k) ''notes''))
       \<and> (\<forall>k. k < length parameters \<longrightarrow>
             property_at (sm_series AOI parameters ! k) ''model'' = Inr (Some (Str ''TOTRAM''))
           \<and> property_at (sm_series AOI parameters ! k) ''units'' = Inr (Some (Str ''relative''))
           \<and> property_at (sm_series AOI parameters ! k) ''model_ref''
               = Inr (props (parameters ! k) ''model_ref'')
           \<and> property_at (sm_series AOI parameters ! k) ''notes''
               = Inr (props (parameters ! k) ''notes''))
       \<and> property_at (sm_mean AOI parameters) ''model'' = Inr (Some (Str ''TOTRAM''))
       \<and> property_at (sm_mean AOI parameters) ''units'' = Inr (Some (Str ''relative''))
       \<and> property_at (sm_mean AOI parameters) ''notes''
           = Inr (Some (Str ''Thermal-optical relative soil moisture (TOTRAM)''))
       \<and> property_at (sm_mean AOI parameters) ''model_ref'' = Inr None"
proof -
  note opt = assms(1-4) and tot = assms(5-8)
  have median:
    "property_at (OPTRAM_median AOI coll imgMedian) ''model'' = Inr (Some (Str ''OPTRAM''))"
    "property_at (OPTRAM_median AOI coll imgMedian) ''model_ref''
           = Inr (Some (Str ''Sadeghi et al. (adapted).''))"
    "property_at (OPTRAM_median AOI coll imgMedian) ''units'' = Inr (Some (Str ''%''))"
    "property_at (OPTRAM_median AOI coll imgMedian) ''notes''
           = Inr (Some (Str ''Relative surface soil moisture estimated by OPTRAM from Sentinel-2 STR & NDVI''))"
    by (simp_all add: OPTRAM_median_Inr [OF opt] property_at_def)
  have series: "\<forall>k. k < length coll \<longrightarrow>
             property_at (optram_series AOI coll ! k) ''model'' = Inr (Some (Str ''OPTRAM''))
           \<and> property_at (optram_series AOI coll ! k) ''units'' = Inr (Some (Str ''%''))
           \<and> property_at (optram_series AOI coll ! k) ''model_ref''
               = Inr (props (coll ! k) ''model_ref'')
           \<and> property_at (optram_series AOI coll ! k) ''notes'' = Inr (props (coll ! k) ''notes'')"
    by (simp add: optram_series_nth property_at_optram_image [OF opt])
  have sm: "\<forall>k. k < length parameters \<longrightarrow>
             property_at (sm_series AOI parameters ! k) ''model'' = Inr (Some (Str ''TOTRAM''))
           \<and> property_at (sm_series AOI parameters ! k) ''units'' = Inr (Some (Str ''relative''))
           \<and> property_at (sm_series AOI parameters ! k) ''model_ref''
               = Inr (props (parameters ! k) ''model_ref'')
           \<and> property_at (sm_series AOI parameters ! k) ''notes''
               = Inr (props (parameters ! k) ''notes'')"
    by (simp add: sm_series_nth property_at_sm_image [OF tot])
  have mean:
    "property_at (sm_mean AOI parameters) ''model'' = Inr (Some (Str ''TOTRAM''))"
    "property_at (sm_mean AOI parameters) ''units'' = Inr (Some (Str ''relative''))"
    "property_at (sm_mean AOI parameters) ''notes''
           = Inr (Some (Str ''Thermal-optical relative soil moisture (TOTRAM)''))"
    "property_at (sm_mean AOI parameters) ''model_ref'' = Inr None"
    by (simp_all add: sm_mean_Inr [OF tot assms(9)] property_at_def)
  from median series sm mean show ?thesis by blast
qed

theorem provenance_metadata_witness:
  "id_opt [0] three_scenes = Inr 2 \<and> sd_opt [0] three_scenes = Inr (- (9 / 10))
   \<and> iw_opt [0] three_scenes = Inr 2 \<and> sw_opt [0] three_scenes = Inr (- (8 / 10))
   \<and> id_tot [0] landsat_scenes = Inr (319901 / 1000) \<and> sd [0] landsat_scenes = Inr (512703 / 25000)
   \<and> iw [0] landsat_scenes = Inr (15482347 / 50000) \<and> sw [0] landsat_scenes = Inr (170901 / 12500)
   \<and> landsat_scenes \<noteq> [] \<and> (0::nat) < length three_scenes \<and> (0::nat) < length landsat_scenes
   \<and> property_at (OPTRAM_median [0] three_scenes (s2_pixel 0 (1 / 2) 1)) ''model_ref''
       = Inr (Some (Str ''Sadeghi et al. (adapted).''))
   \<and> property_at (optram_series [0] three_scenes ! 0) ''model'' = Inr (Some (Str ''OPTRAM''))
   \<and> property_at (sm_series [0] landsat_scenes ! 0) ''units'' = Inr (Some (Str ''relative''))
   \<and> property_at (sm_mean [0] landsat_scenes) ''model'' = Inr (Some (Str ''TOTRAM''))"
proof -
  note inst = provenance_metadata [OF three_id three_sd three_iw three_sw
      landsat_id landsat_sd landsat_iw landsat_sw landsat_scenes_nonempty,
      of "s2_pixel 0 (1 / 2) 1"]
  have len: "(0::nat) < length three_scenes" "(0::nat) < length landsat_scenes"
    by (simp_all add: three_scenes_def landsat_scenes_def)
  from inst len
  have "property_at (OPTRAM_median [0] three_scenes (s2_pixel 0 (1 / 2) 1)) ''model_ref''
       = Inr (Some (Str ''Sadeghi et al. (adapted).''))"
    and "property_at (optram_series [0] three_scenes ! 0) ''model'' = Inr (Some (Str ''OPTRAM''))"
    and "property_at (sm_series [0] landsat_scenes ! 0) ''units'' = Inr (Some (Str ''relative''))"
    and "property_at (sm_mean [0] landsat_scenes) ''model'' = Inr (Some (Str ''TOTRAM''))"
    by blast+
  with len show ?thesis
    by (simp add: three_id three_sd three_iw three_sw landsat_id landsat_sd landsat_iw landsat_sw
        landsat_scenes_nonempty)
qed

text \<open>
  Claim C10. When the trapezoid parameters are available, for every image of the collection
  the per-image evaluator of either script returns an image whose only band is named
  \<^verbatim>\<open>soil_moisture\<close> and which carries every property of its source image: each property
  name of the source is a property name of the output, with the source's value for every
  name other than the two written afterwards (\<^verbatim>\<open>model\<close>, \<^verbatim>\<open>units\<close>); in particular
  \<^verbatim>\<open>system:time_start\<close> is the source's. The source image is an argument of a pure function:
  nothing is written to it.
\<close>

theorem per_scene_output_frame:
  assumes "id_opt AOI coll = Inr i_d" "sd_opt AOI coll = Inr s_d"
    and "iw_opt AOI coll = Inr i_w" "sw_opt AOI coll = Inr s_w"
    and "id_tot AOI parameters = Inr j_d" "sd AOI parameters = Inr t_d"
    and "iw AOI parameters = Inr j_w" "sw AOI parameters = Inr t_w"
  shows "(\<forall>k. k < length coll \<longrightarrow>
             band_names (optram_series AOI coll ! k) = Inr [''soil_moisture'']
           \<and> (\<forall>key. key \<noteq> ''model'' \<longrightarrow> key \<noteq> ''units'' \<longrightarrow>
                 property_at (optram_series AOI coll ! k) key = Inr (props (coll ! k) key))
           \<and> (\<forall>key. key \<in> propertyNames (props (coll ! k)) \<longrightarrow>
                 property_at (optram_series AOI coll ! k) key \<noteq> Inr None)
           \<and> property_at (optram_series AOI coll ! k) ''system:time_start''
               = Inr (props (coll ! k) ''system:time_start''))
       \<and> (\<forall>k. k < length parameters \<longrightarrow>
             band_names (sm_series AOI parameters ! k) = Inr [''soil_moisture'']
           \<and> (\<forall>key. key \<noteq> ''model'' \<longrightarrow> key \<noteq> ''units'' \<longrightarrow>
                 property_at (sm_series AOI parameters ! k) key = Inr (props (parameters ! k) key))
           \<and> (\<forall>key. key \<in> propertyNames (props (parameters ! k)) \<longrightarrow>
                 property_at (sm_series AOI parameters ! k) key \<noteq> Inr None)
           \<and> property_at (sm_series AOI parameters ! k) ''system:time_start''
               = Inr (props (parameters ! k) ''system:time_start''))"
proof -
  note opt = assms(1-4) and tot = assms(5-8)
  have s2: "\<forall>k. k < length coll \<longrightarrow>
             band_names (optram_series AOI coll ! k) = Inr [''soil_moisture'']
           \<and> (\<forall>key. key \<noteq> ''model'' \<longrightarrow> key \<noteq> ''units'' \<longrightarrow>
                 property_at (optram_series AOI coll ! k) key = Inr (props (coll ! k) key))
           \<and> (\<forall>key. key \<in> propertyNames (props (coll ! k)) \<longrightarrow>
                 property_at (optram_series AOI coll ! k) key \<noteq> Inr None)
           \<and> property_at (optram_series AOI coll ! k) ''system:time_start''
               = Inr (props (coll ! k) ''system:time_start'')"
    by (auto simp: optram_series_nth optram_image_Inr [OF opt] property_at_def
        band_names_def propertyNames_def)
  have l8: "\<forall>k. k < length parameters \<longrightarrow>
             band_names (sm_series AOI parameters ! k) = Inr [''soil_moisture'']
           \<and> (\<forall>key. key \<noteq> ''model'' \<longrightarrow> key \<noteq> ''units'' \<longrightarrow>
                 property_at (sm_series AOI parameters ! k) key = Inr (props (parameters ! k) key))
           \<and> (\<forall>key. key \<in> propertyNames (props (parameters ! k)) \<longrightarrow>
                 property_at (sm_series AOI parameters ! k) key \<noteq> Inr None)
           \<and> property_at (sm_series AOI parameters ! k) ''system:time_start''
               = Inr (props (parameters ! k) ''system:time_start'')"
    by (auto simp: sm_series_nth sm_image_Inr [OF tot] property_at_def
        band_names_def propertyNames_def)
  from s2 l8 show ?thesis by blast
qed

theorem per_scene_output_frame_witness:
  "id_opt [0] three_scenes = Inr 2 \<and> sd_opt [0] three_scenes = Inr (- (9 / 10))
   \<and> iw_opt [0] three_scenes = Inr 2 \<and> sw_opt [0] three_scenes = Inr (- (8 / 10))
   \<and> id_tot [0] landsat_scenes = Inr (319901 / 1000) \<and> sd [0] landsat_scenes = Inr (512703 / 25000)
   \<and> iw [0] landsat_scenes = Inr (15482347 / 50000) \<and> sw [0] landsat_scenes = Inr (170901 / 12500)
   \<and> (0::nat) < length three_scenes \<and> (0::nat) < length landsat_scenes
   \<and> ''system:time_start'' \<in> propertyNames (props (three_scenes ! 0))
   \<and> band_names (optram_series [0] three_scenes ! 0) = Inr [''soil_moisture'']
   \<and> property_at (optram_series [0] three_scenes ! 0) ''system:time_start'' = Inr (Some (Num 1))
   \<and> band_names (sm_series [0] landsat_scenes ! 0) = Inr [''soil_moisture'']
   \<and> property_at (sm_series [0] landsat_scenes ! 0) ''system:time_start'' = Inr (Some (Num 1))"
proof -
  note inst = per_scene_output_frame [OF three_id three_sd three_iw three_sw
      landsat_id landsat_sd landsat_iw landsat_sw]
  have len: "(0::nat) < length three_scenes" "(0::nat) < length landsat_scenes"
    by (simp_all add: three_scenes_def landsat_scenes_def)
  note s2 = inst [THEN conjunct1, rule_format, OF len(1)]
  note l8 = inst [THEN conjunct2, rule_format, OF len(2)]
  have a: "band_names (optram_series [0] three_scenes ! 0) = Inr [''soil_moisture'']"
    "property_at (optram_series [0] three_scenes ! 0) ''system:time_start'' = Inr (Some (Num 1))"
    using s2 by (simp_all add: three_scenes_props0)
  have b: "band_names (sm_series [0] landsat_scenes ! 0) = Inr [''soil_moisture'']"
    "property_at (sm_series [0] landsat_scenes ! 0) ''system:time_start'' = Inr (Some (Num 1))"
    using l8 by (simp_all add: landsat_scenes_props0)
  show ?thesis
    using a b len
    by (simp add: three_id three_sd three_iw three_sw landsat_id landsat_sd landsat_iw landsat_sw
        three_scenes_props0 propertyNames_def)
qed

section \<open>Missing corners\<close>

lemma ee_Number_Inl: "ee_Number v = Inl e \<longleftrightarrow> v = None \<and> e = EvaluationError"
  by (cases v) (auto simp: ee_Number_def)

lemma global_max_None: "global_max vs = None \<longleftrightarrow> vs = []"
  by (simp add: global_max_def)

lemma global_min_None: "global_min vs = None \<longleftrightarrow> vs = []"
  by (simp add: global_min_def)

lemma corner_max_Inl:
  "ee_Number (reduceRegion_max AOI (collection_max bs)) = Inl e
   \<longleftrightarrow> pooled_values AOI bs = [] \<and> e = EvaluationError"
  by (simp add: ee_Number_Inl two_stage_max global_max_None)

lemma corner_min_Inl:
  "ee_Number (reduceRegion_min AOI (collection_min bs)) = Inl e
   \<longleftrightarrow> pooled_values AOI bs = [] \<and> e = EvaluationError"
  by (simp add: ee_Number_Inl two_stage_min global_min_None)

lemma optram_corners_fail:
  assumes "pooled_values AOI (STR_full_cover coll) = [] \<or> pooled_values AOI (STR_bare_soil coll) = []"
  shows "sd_opt AOI coll = Inl EvaluationError" "sw_opt AOI coll = Inl EvaluationError"
proof -
  have full: "pooled_values AOI (STR_full_cover coll) = []
      \<Longrightarrow> vd_opt AOI coll = Inl EvaluationError \<and> vw_opt AOI coll = Inl EvaluationError"
    by (simp add: vd_opt_def vw_opt_def corner_max_Inl corner_min_Inl)
  have bare: "pooled_values AOI (STR_bare_soil coll) = []
      \<Longrightarrow> id_opt AOI coll = Inl EvaluationError \<and> iw_opt AOI coll = Inl EvaluationError"
    by (simp add: id_opt_def iw_opt_def corner_max_Inl corner_min_Inl)
  have vd: "vd_opt AOI coll = Inl EvaluationError \<or> (\<exists>x. vd_opt AOI coll = Inr x)"
    by (cases "vd_opt AOI coll") (simp_all add: vd_opt_def corner_min_Inl)
  have vw: "vw_opt AOI coll = Inl EvaluationError \<or> (\<exists>x. vw_opt AOI coll = Inr x)"
    by (cases "vw_opt AOI coll") (simp_all add: vw_opt_def corner_max_Inl)
  show "sd_opt AOI coll = Inl EvaluationError"
    using assms full bare vd by (auto simp: sd_opt_def subtract_def)
  show "sw_opt AOI coll = Inl EvaluationError"
    using assms full bare vw by (auto simp: sw_opt_def subtract_def)
qed

lemma totram_corners_fail:
  assumes "pooled_values AOI (lst_full_cover parameters) = []
           \<or> pooled_values AOI (lst_bareland parameters) = []"
  shows "sd AOI parameters = Inl EvaluationError" "sw AOI parameters = Inl EvaluationError"
proof -
  have full: "pooled_values AOI (lst_full_cover parameters) = []
      \<Longrightarrow> vd AOI parameters = Inl EvaluationError \<and> vw AOI parameters = Inl EvaluationError"
    by (simp add: vd_def vw_def corner_max_Inl corner_min_Inl)
  have bare: "pooled_values AOI (lst_bareland parameters) = []
      \<Longrightarrow> id_tot AOI parameters = Inl EvaluationError \<and> iw AOI parameters = Inl EvaluationError"
    by (simp add: id_tot_def iw_def corner_max_Inl corner_min_Inl)
  have i_d: "id_tot AOI parameters = Inl EvaluationError \<or> (\<exists>x. id_tot AOI parameters = Inr x)"
    by (cases "id_tot AOI parameters") (simp_all add: id_tot_def corner_max_Inl)
  have i_w: "iw AOI parameters = Inl EvaluationError \<or> (\<exists>x. iw AOI parameters = Inr x)"
    by (cases "iw AOI parameters") (simp_all add: iw_def corner_min_Inl)
  show "sd AOI parameters = Inl EvaluationError"
    using assms full bare i_d by (auto simp: sd_def subtract_def)
  show "sw AOI parameters = Inl EvaluationError"
    using assms full bare i_w by (auto simp: sw_def subtract_def)
qed

lemma expression_sd_Inl:
  assumes "s_d = Inl EvaluationError" and "i_d = Inl EvaluationError \<or> (\<exists>x. i_d = Inr x)"
  shows "expression f ndvi src i_d s_d i_w s_w = Inl EvaluationError"
  using assms by (auto simp: expression_def)

lemma id_opt_cases: "id_opt AOI coll = Inl EvaluationError \<or> (\<exists>x. id_opt AOI coll = Inr x)"
  by (cases "id_opt AOI coll") (simp_all add: id_opt_def corner_min_Inl)

lemma id_tot_cases:
  "id_tot AOI parameters = Inl EvaluationError \<or> (\<exists>x. id_tot AOI parameters = Inr x)"
  by (cases "id_tot AOI parameters") (simp_all add: id_tot_def corner_max_Inl)

lemma series_bands_all_failed:
  "series_bands (map (\<lambda>_. Inl EvaluationError) (qs :: 'a list))
   = (if qs = [] then Inr [] else (Inl EvaluationError :: error + 'p band list))"
  by (cases qs) simp_all

lemma unclassified_scene_pool: "pooled_values [0] (STR_full_cover [s2_pixel 1 (4 / 10) 1]) = []"
  by (simp add: pooled_values_def STR_full_cover_def updateMask_def full_def gte_def)

text \<open>
  Claim C4, as the claim states it, fails: the scripts define no error and no abort. On an
  empty collection the corner has no value and the failure is Earth Engine's own
  evaluation error, not \<open>InsufficientDataError\<close>; on a one-image collection whose only pixel
  (NDVI 0.4) is in neither vegetation class, the mapped evaluator is still applied to the
  image and that one result fails.
\<close>

theorem missing_corner_counterexample:
  "vw_opt [0 :: nat] [] = Inl EvaluationError
   \<and> vw_opt [0 :: nat] [] \<noteq> Inl InsufficientDataError
   \<and> vw [0 :: nat] [] = Inl EvaluationError
   \<and> vw [0 :: nat] [] \<noteq> Inl InsufficientDataError
   \<and> pooled_values [0] (STR_full_cover [s2_pixel 1 (4 / 10) 1]) = []
   \<and> vw_opt [0] [s2_pixel 1 (4 / 10) 1] = Inl EvaluationError
   \<and> vw_opt [0] [s2_pixel 1 (4 / 10) 1] \<noteq> Inl InsufficientDataError
   \<and> optram_series [0] [s2_pixel 1 (4 / 10) 1] = [Inl EvaluationError]"
proof -
  have empty: "vw_opt [0 :: nat] [] = Inl EvaluationError" "vw [0 :: nat] [] = Inl EvaluationError"
    by (simp_all add: vw_opt_def vw_def mask_defs reducer_defs)
  note pool = unclassified_scene_pool
  have one: "vw_opt [0] [s2_pixel 1 (4 / 10) 1] = Inl EvaluationError"
    using pool by (simp add: vw_opt_def corner_max_Inl)
  have series: "optram_series [0] [s2_pixel 1 (4 / 10) 1] = [Inl EvaluationError]"
    using optram_corners_fail [of "[0]" "[s2_pixel 1 (4 / 10) 1]"] pool
      id_opt_cases [of "[0]" "[s2_pixel 1 (4 / 10) 1]"]
    by (auto simp: optram_series_def optram_image_def expression_def)
  from empty pool one series show ?thesis by simp
qed

text \<open>
  Claim C4, amended. A corner has no value exactly when the pooled list of valid masked
  pixel values is empty (in particular for an empty collection); it is then Earth Engine's
  evaluation error and never an \<open>InsufficientDataError\<close>. There is no abort: the error
  propagates to both deltas, to the reference-composite output, to the mean map, and to
  each per-image result of the series individually (one failed result per image, and no
  output image is produced from a missing corner).
\<close>

theorem missing_corner_propagates:
  "(vw_opt AOI coll = Inl EvaluationError \<longleftrightarrow> pooled_values AOI (STR_full_cover coll) = [])
   \<and> (vd_opt AOI coll = Inl EvaluationError \<longleftrightarrow> pooled_values AOI (STR_full_cover coll) = [])
   \<and> (iw_opt AOI coll = Inl EvaluationError \<longleftrightarrow> pooled_values AOI (STR_bare_soil coll) = [])
   \<and> (id_opt AOI coll = Inl EvaluationError \<longleftrightarrow> pooled_values AOI (STR_bare_soil coll) = [])
   \<and> vw_opt AOI coll \<noteq> Inl InsufficientDataError \<and> vd_opt AOI coll \<noteq> Inl InsufficientDataError
   \<and> iw_opt AOI coll \<noteq> Inl InsufficientDataError \<and> id_opt AOI coll \<noteq> Inl InsufficientDataError
   \<and> pooled_values AOI (STR_full_cover []) = [] \<and> pooled_values AOI (STR_bare_soil []) = []
   \<and> (pooled_values AOI (STR_full_cover coll) = [] \<or> pooled_values AOI (STR_bare_soil coll) = []
        \<longrightarrow> sd_opt AOI coll = Inl EvaluationError \<and> sw_opt AOI coll = Inl EvaluationError
          \<and> OPTRAM_median AOI coll imgMedian = Inl EvaluationError
          \<and> optram_series AOI coll = map (\<lambda>_. Inl EvaluationError) coll)
   \<and> (vw AOI parameters = Inl EvaluationError \<longleftrightarrow> pooled_values AOI (lst_full_cover parameters) = [])
   \<and> (vd AOI parameters = Inl EvaluationError \<longleftrightarrow> pooled_values AOI (lst_full_cover parameters) = [])
   \<and> (iw AOI parameters = Inl EvaluationError \<longleftrightarrow> pooled_values AOI (lst_bareland parameters) = [])
   \<and> (id_tot AOI parameters = Inl EvaluationError \<longleftrightarrow> pooled_values AOI (lst_bareland parameters) = [])
   \<and> vw AOI parameters \<noteq> Inl InsufficientDataError \<and> vd AOI parameters \<noteq> Inl InsufficientDataError
   \<and> iw AOI parameters \<noteq> Inl InsufficientDataError \<and> id_tot AOI parameters \<noteq> Inl InsufficientDataError
   \<and> pooled_values AOI (lst_full_cover []) = [] \<and> pooled_values AOI (lst_bareland []) = []
   \<and> (pooled_values AOI (lst_full_cover parameters) = []
        \<or> pooled_values AOI (lst_bareland parameters) = []
        \<longrightarrow> sd AOI parameters = Inl EvaluationError \<and> sw AOI parameters = Inl EvaluationError
          \<and> sm_series AOI parameters = map (\<lambda>_. Inl EvaluationError) parameters
          \<and> sm_mean AOI parameters = Inl EvaluationError)"
proof -
  have corners:
    "vw_opt AOI coll = Inl EvaluationError \<longleftrightarrow> pooled_values AOI (STR_full_cover coll) = []"
    "vd_opt AOI coll = Inl EvaluationError \<longleftrightarrow> pooled_values AOI (STR_full_cover coll) = []"
    "iw_opt AOI coll = Inl EvaluationError \<longleftrightarrow> pooled_values AOI (STR_bare_soil coll) = []"
    "id_opt AOI coll = Inl EvaluationError \<longleftrightarrow> pooled_values AOI (STR_bare_soil coll) = []"
    "vw AOI parameters = Inl EvaluationError \<longleftrightarrow> pooled_values AOI (lst_full_cover parameters) = []"
    "vd AOI parameters = Inl EvaluationError \<longleftrightarrow> pooled_values AOI (lst_full_cover parameters) = []"
    "iw AOI parameters = Inl EvaluationError \<longleftrightarrow> pooled_values AOI (lst_bareland parameters) = []"
    "id_tot AOI parameters = Inl EvaluationError \<longleftrightarrow> pooled_values AOI (lst_bareland parameters) = []"
    by (simp_all add: corner_defs corner_max_Inl corner_min_Inl)
  have never:
    "vw_opt AOI coll \<noteq> Inl InsufficientDataError" "vd_opt AOI coll \<noteq> Inl InsufficientDataError"
    "iw_opt AOI coll \<noteq> Inl InsufficientDataError" "id_opt AOI coll \<noteq> Inl InsufficientDataError"
    "vw AOI parameters \<noteq> Inl InsufficientDataError" "vd AOI parameters \<noteq> Inl InsufficientDataError"
    "iw AOI parameters \<noteq> Inl InsufficientDataError" "id_tot AOI parameters \<noteq> Inl InsufficientDataError"
    by (simp_all add: corner_defs corner_max_Inl corner_min_Inl)
  have empty:
    "pooled_values AOI (STR_full_cover []) = []" "pooled_values AOI (STR_bare_soil []) = []"
    "pooled_values AOI (lst_full_cover []) = []" "pooled_values AOI (lst_bareland []) = []"
    by (simp_all add: pooled_values_def STR_full_cover_def STR_bare_soil_def
        lst_full_cover_def lst_bareland_def)
  have s2: "sd_opt AOI coll = Inl EvaluationError \<and> sw_opt AOI coll = Inl EvaluationError
          \<and> OPTRAM_median AOI coll imgMedian = Inl EvaluationError
          \<and> optram_series AOI coll = map (\<lambda>_. Inl EvaluationError) coll"
    if h: "pooled_values AOI (STR_full_cover coll) = [] \<or> pooled_values AOI (STR_bare_soil coll) = []"
  proof -
    note d = optram_corners_fail [OF h]
    have e: "expression f ndvi src (id_opt AOI coll) (sd_opt AOI coll) (iw_opt AOI coll)
               (sw_opt AOI coll) = Inl EvaluationError" for f and ndvi src :: "'a band"
      by (rule expression_sd_Inl [OF d(1) id_opt_cases])
    have "OPTRAM_median AOI coll imgMedian = Inl EvaluationError"
      by (simp add: OPTRAM_median_def e)
    moreover have "optram_image AOI coll img = Inl EvaluationError" for img
      by (simp add: optram_image_def e)
    then have "optram_series AOI coll = map (\<lambda>_. Inl EvaluationError) coll"
      by (simp add: optram_series_def)
    ultimately show ?thesis using d by simp
  qed
  have l8: "sd AOI parameters = Inl EvaluationError \<and> sw AOI parameters = Inl EvaluationError
          \<and> sm_series AOI parameters = map (\<lambda>_. Inl EvaluationError) parameters
          \<and> sm_mean AOI parameters = Inl EvaluationError"
    if h: "pooled_values AOI (lst_full_cover parameters) = []
           \<or> pooled_values AOI (lst_bareland parameters) = []"
  proof -
    note d = totram_corners_fail [OF h]
    have e: "expression f ndvi src (id_tot AOI parameters) (sd AOI parameters)
               (iw AOI parameters) (sw AOI parameters) = Inl EvaluationError"
      for f and ndvi src :: "'a band"
      by (rule expression_sd_Inl [OF d(1) id_tot_cases])
    have "sm_image AOI parameters img = Inl EvaluationError" for img
      by (simp add: sm_image_def e)
    then have series: "sm_series AOI parameters = map (\<lambda>_. Inl EvaluationError) parameters"
      by (simp add: sm_series_def)
    have "sm_mean AOI parameters = Inl EvaluationError"
      by (simp add: sm_mean_def series series_bands_all_failed)
    with series d show ?thesis by simp
  qed
  from corners never empty s2 l8 show ?thesis by blast
qed

theorem missing_corner_propagates_witness:
  "pooled_values [0] (STR_full_cover [s2_pixel 1 (4 / 10) 1]) = []
   \<and> pooled_values [0 :: nat] (lst_full_cover []) = []
   \<and> vw_opt [0] [s2_pixel 1 (4 / 10) 1] = Inl EvaluationError
   \<and> sd_opt [0] [s2_pixel 1 (4 / 10) 1] = Inl EvaluationError
   \<and> OPTRAM_median [0] [s2_pixel 1 (4 / 10) 1] (s2_pixel 0 (1 / 2) 1) = Inl EvaluationError
   \<and> optram_series [0] [s2_pixel 1 (4 / 10) 1] = [Inl EvaluationError]
   \<and> vw [0 :: nat] [] = Inl EvaluationError
   \<and> sm_series [0 :: nat] [] = []
   \<and> sm_mean [0 :: nat] [] = Inl EvaluationError"
proof -
  note pool = unclassified_scene_pool
  have empty: "pooled_values [0 :: nat] (lst_full_cover []) = []"
    by (simp add: pooled_values_def lst_full_cover_def)
  show ?thesis
    using missing_corner_propagates
            [of "[0]" "[s2_pixel 1 (4 / 10) 1]" "s2_pixel 0 (1 / 2) 1" "[]"] pool empty
    by simp
qed

section \<open>Order of the images\<close>

lemma global_max_set: "set vs = set ws \<Longrightarrow> global_max vs = global_max ws"
  by (auto simp: global_max_def)

lemma global_min_set: "set vs = set ws \<Longrightarrow> global_min vs = global_min ws"
  by (auto simp: global_min_def)

lemma set_pooled_values:
  "set (pooled_values geometry bs) = (\<Union>b \<in> set bs. set (List.map_filter b geometry))"
  by (simp add: pooled_values_def)

lemma corner_max_set:
  "set bs = set bs' \<Longrightarrow>
   reduceRegion_max AOI (collection_max bs) = reduceRegion_max AOI (collection_max bs')"
  by (simp add: two_stage_max global_max_set set_pooled_values)

lemma corner_min_set:
  "set bs = set bs' \<Longrightarrow>
   reduceRegion_min AOI (collection_min bs) = reduceRegion_min AOI (collection_min bs')"
  by (simp add: two_stage_min global_min_set set_pooled_values)

lemma optram_corners_permuted:
  assumes "mset coll' = mset coll"
  shows "vw_opt AOI coll' = vw_opt AOI coll" "vd_opt AOI coll' = vd_opt AOI coll"
    "iw_opt AOI coll' = iw_opt AOI coll" "id_opt AOI coll' = id_opt AOI coll"
proof -
  have s: "set coll' = set coll"
    using assms by (rule mset_eq_setD)
  then have "set (STR_full_cover coll') = set (STR_full_cover coll)"
    "set (STR_bare_soil coll') = set (STR_bare_soil coll)"
    by (simp_all add: STR_full_cover_def STR_bare_soil_def)
  then show "vw_opt AOI coll' = vw_opt AOI coll" "vd_opt AOI coll' = vd_opt AOI coll"
    "iw_opt AOI coll' = iw_opt AOI coll" "id_opt AOI coll' = id_opt AOI coll"
    by (simp_all add: vw_opt_def vd_opt_def iw_opt_def id_opt_def
        corner_max_set [of "STR_full_cover coll'" "STR_full_cover coll"]
        corner_min_set [of "STR_full_cover coll'" "STR_full_cover coll"]
        corner_max_set [of "STR_bare_soil coll'" "STR_bare_soil coll"]
        corner_min_set [of "STR_bare_soil coll'" "STR_bare_soil coll"])
qed

lemma totram_corners_permuted:
  assumes "mset parameters' = mset parameters"
  shows "vw AOI parameters' = vw AOI parameters" "vd AOI parameters' = vd AOI parameters"
    "iw AOI parameters' = iw AOI parameters" "id_tot AOI parameters' = id_tot AOI parameters"
proof -
  have s: "set parameters' = set parameters"
    using assms by (rule mset_eq_setD)
  then have "set (lst_full_cover parameters') = set (lst_full_cover parameters)"
    "set (lst_bareland parameters') = set (lst_bareland parameters)"
    by (simp_all add: lst_full_cover_def lst_bareland_def)
  then show "vw AOI parameters' = vw AOI parameters" "vd AOI parameters' = vd AOI parameters"
    "iw AOI parameters' = iw AOI parameters" "id_tot AOI parameters' = id_tot AOI parameters"
    by (simp_all add: vw_def vd_def iw_def id_tot_def
        corner_max_set [of "lst_full_cover parameters'" "lst_full_cover parameters"]
        corner_min_set [of "lst_full_cover parameters'" "lst_full_cover parameters"]
        corner_max_set [of "lst_bareland parameters'" "lst_bareland parameters"]
        corner_min_set [of "lst_bareland parameters'" "lst_bareland parameters"])
qed

lemma optram_image_permuted:
  assumes "mset coll' = mset coll"
  shows "optram_image AOI coll' = optram_image AOI coll"
  by (rule ext) (simp add: optram_image_def sd_opt_def sw_opt_def optram_corners_permuted [OF assms])

lemma sm_image_permuted:
  assumes "mset parameters' = mset parameters"
  shows "sm_image AOI parameters' = sm_image AOI parameters"
  by (rule ext) (simp add: sm_image_def sd_def sw_def totram_corners_permuted [OF assms])

lemma mset_chart_series_map:
  "mset (chart_series (map f xs) region) = image_mset (\<lambda>x. chart_point region (f x)) (mset xs)"
  by (simp add: chart_series_def multiset.map_comp comp_def)

text \<open>
  Claim C7. For every collection and every permutation of its images (a list with the same
  multiset of images), the four corners and the two deltas of either script are the same,
  every image is evaluated to the same result, and the regional chart series (the points
  \<open>(system:time_start, regional mean of soil_moisture)\<close>, one per image) has the same
  points with the same multiplicities.
\<close>

theorem scene_order_independence:
  assumes "mset coll' = mset coll" and "mset parameters' = mset parameters"
  shows "vw_opt AOI coll' = vw_opt AOI coll \<and> vd_opt AOI coll' = vd_opt AOI coll
       \<and> iw_opt AOI coll' = iw_opt AOI coll \<and> id_opt AOI coll' = id_opt AOI coll
       \<and> sd_opt AOI coll' = sd_opt AOI coll \<and> sw_opt AOI coll' = sw_opt AOI coll
       \<and> optram_image AOI coll' = optram_image AOI coll
       \<and> mset (chart_series (optram_series AOI coll') region)
           = mset (chart_series (optram_series AOI coll) region)
       \<and> vw AOI parameters' = vw AOI parameters \<and> vd AOI parameters' = vd AOI parameters
       \<and> iw AOI parameters' = iw AOI parameters \<and> id_tot AOI parameters' = id_tot AOI parameters
       \<and> sd AOI parameters' = sd AOI parameters \<and> sw AOI parameters' = sw AOI parameters
       \<and> sm_image AOI parameters' = sm_image AOI parameters
       \<and> mset (chart_series (sm_series AOI parameters') region)
           = mset (chart_series (sm_series AOI parameters) region)"
proof -
  note c = optram_corners_permuted [OF assms(1), of AOI]
  note t = totram_corners_permuted [OF assms(2), of AOI]
  have d: "sd_opt AOI coll' = sd_opt AOI coll" "sw_opt AOI coll' = sw_opt AOI coll"
    "sd AOI parameters' = sd AOI parameters" "sw AOI parameters' = sw AOI parameters"
    by (simp_all add: sd_opt_def sw_opt_def sd_def sw_def c t)
  note i = optram_image_permuted [OF assms(1), of AOI] sm_image_permuted [OF assms(2), of AOI]
  have s2: "mset (chart_series (optram_series AOI coll') region)
           = mset (chart_series (optram_series AOI coll) region)"
    by (simp add: optram_series_def mset_chart_series_map i assms(1))
  have l8: "mset (chart_series (sm_series AOI parameters') region)
           = mset (chart_series (sm_series AOI parameters) region)"
    by (simp add: sm_series_def mset_chart_series_map i assms(2))
  from c t d i s2 l8 show ?thesis by simp
qed

theorem scene_order_independence_witness:
  "mset (rev three_scenes) = mset three_scenes \<and> mset (rev landsat_scenes) = mset landsat_scenes
   \<and> rev three_scenes \<noteq> three_scenes
   \<and> vw_opt [0] (rev three_scenes) = Inr (12 / 10) \<and> id_opt [0] (rev three_scenes) = Inr 2
   \<and> mset (chart_series (optram_series [0] (rev three_scenes)) [0])
       = mset (chart_series (optram_series [0] three_scenes) [0])
   \<and> id_tot [0] (rev landsat_scenes) = Inr (319901 / 1000)
   \<and> mset (chart_series (sm_series [0] (rev landsat_scenes)) [0])
       = mset (chart_series (sm_series [0] landsat_scenes) [0])"
proof -
  have p: "mset (rev three_scenes) = mset three_scenes"
    "mset (rev landsat_scenes) = mset landsat_scenes"
    by simp_all
  have "props (hd (rev three_scenes)) ''system:time_start'' = Some (Num 3)"
    "props (hd three_scenes) ''system:time_start'' = Some (Num 1)"
    by (simp_all add: three_scenes_def s2_pixel_def)
  then have ne: "rev three_scenes \<noteq> three_scenes"
    by auto
  show ?thesis
    using scene_order_independence [OF p, of "[0]" "[0]"] ne
    by (simp add: three_vw three_id landsat_id)
qed

end
